theory Spec2Isabelle
  imports Complex_Main "HOL-Library.Word"
begin

unbundle bit_operations_syntax

section \<open>JavaScript values\<close>

text \<open>
  A JavaScript number is modelled as a finite real or one of the three special values.
  Arithmetic on finite values is exact: binary64 rounding error, overflow to an infinity
  and the sign of zero are not modelled. The special values follow IEEE 754 as
  ECMAScript prescribes (a comparison with \<open>NaN\<close> is false, \<open>0 * Infinity\<close> is \<open>NaN\<close>, ...).
\<close>

datatype jsnum = Fin real | PInf | NInf | NaN

datatype jsval =
    VUndefined
  | VNull
  | VBool bool
  | VNum jsnum
  | VStr string
  | VArr "jsval list"
  | VObj "(string \<times> jsval) list"

datatype js_error = TypeError string | Error string | SyntaxError string

definition then_do :: "'e + 'a \<Rightarrow> ('a \<Rightarrow> 'e + 'b) \<Rightarrow> 'e + 'b" where
  "then_do r f = (case r of Inl e \<Rightarrow> Inl e | Inr x \<Rightarrow> f x)"

subsection \<open>Arithmetic and comparison of numbers\<close>

fun js_neg :: "jsnum \<Rightarrow> jsnum" where
  "js_neg (Fin a) = Fin (- a)"
| "js_neg PInf = NInf"
| "js_neg NInf = PInf"
| "js_neg NaN = NaN"

fun js_add :: "jsnum \<Rightarrow> jsnum \<Rightarrow> jsnum" where
  "js_add (Fin a) (Fin b) = Fin (a + b)"
| "js_add NaN y = NaN"
| "js_add x NaN = NaN"
| "js_add PInf NInf = NaN"
| "js_add NInf PInf = NaN"
| "js_add PInf y = PInf"
| "js_add x PInf = PInf"
| "js_add NInf y = NInf"
| "js_add x NInf = NInf"

definition js_sub :: "jsnum \<Rightarrow> jsnum \<Rightarrow> jsnum" where
  "js_sub x y = js_add x (js_neg y)"

fun js_mul :: "jsnum \<Rightarrow> jsnum \<Rightarrow> jsnum" where
  "js_mul (Fin a) (Fin b) = Fin (a * b)"
| "js_mul NaN y = NaN"
| "js_mul x NaN = NaN"
| "js_mul (Fin a) PInf = (if a = 0 then NaN else if 0 < a then PInf else NInf)"
| "js_mul (Fin a) NInf = (if a = 0 then NaN else if 0 < a then NInf else PInf)"
| "js_mul PInf (Fin b) = (if b = 0 then NaN else if 0 < b then PInf else NInf)"
| "js_mul NInf (Fin b) = (if b = 0 then NaN else if 0 < b then NInf else PInf)"
| "js_mul PInf PInf = PInf"
| "js_mul PInf NInf = NInf"
| "js_mul NInf PInf = NInf"
| "js_mul NInf NInf = PInf"

text \<open>A zero divisor is taken as \<open>+0\<close>; every divisor in the program is a non-zero constant.\<close>

fun js_div :: "jsnum \<Rightarrow> jsnum \<Rightarrow> jsnum" where
  "js_div (Fin a) (Fin b) =
     (if b = 0 then (if a = 0 then NaN else if 0 < a then PInf else NInf) else Fin (a / b))"
| "js_div NaN y = NaN"
| "js_div x NaN = NaN"
| "js_div (Fin a) PInf = Fin 0"
| "js_div (Fin a) NInf = Fin 0"
| "js_div PInf (Fin b) = (if 0 \<le> b then PInf else NInf)"
| "js_div NInf (Fin b) = (if 0 \<le> b then NInf else PInf)"
| "js_div PInf PInf = NaN"
| "js_div PInf NInf = NaN"
| "js_div NInf PInf = NaN"
| "js_div NInf NInf = NaN"

text \<open>
  \<open>x ** y\<close> for a finite, positive, non-integer exponent \<open>y\<close>, which is what both uses in
  the program are (\<open>2.4\<close> and \<open>1 / 2.4\<close>): a negative base gives \<open>NaN\<close>, both infinities
  give \<open>Infinity\<close>.
\<close>

fun js_pow :: "jsnum \<Rightarrow> real \<Rightarrow> jsnum" where
  "js_pow (Fin a) y = (if a < 0 then NaN else Fin (a powr y))"
| "js_pow PInf y = PInf"
| "js_pow NInf y = PInf"
| "js_pow NaN y = NaN"

fun js_le :: "jsnum \<Rightarrow> jsnum \<Rightarrow> bool" where
  "js_le (Fin a) (Fin b) = (a \<le> b)"
| "js_le NaN y = False"
| "js_le x NaN = False"
| "js_le NInf y = True"
| "js_le x PInf = True"
| "js_le PInf y = False"
| "js_le x NInf = False"

fun js_lt :: "jsnum \<Rightarrow> jsnum \<Rightarrow> bool" where
  "js_lt (Fin a) (Fin b) = (a < b)"
| "js_lt NaN y = False"
| "js_lt x NaN = False"
| "js_lt PInf y = False"
| "js_lt x NInf = False"
| "js_lt NInf y = True"
| "js_lt x PInf = True"

text \<open>Strict inequality \<open>x !== y\<close> of two numbers: \<open>NaN\<close> differs from everything.\<close>

definition js_strict_neq :: "jsnum \<Rightarrow> jsnum \<Rightarrow> bool" where
  "js_strict_neq x y = (x = NaN \<or> y = NaN \<or> x \<noteq> y)"

definition Math_max :: "jsnum \<Rightarrow> jsnum \<Rightarrow> jsnum" where
  "Math_max x y = (if x = NaN \<or> y = NaN then NaN else if js_le x y then y else x)"

definition Math_min :: "jsnum \<Rightarrow> jsnum \<Rightarrow> jsnum" where
  "Math_min x y = (if x = NaN \<or> y = NaN then NaN else if js_le x y then x else y)"

text \<open>\<open>Math.round\<close> rounds to the nearest integer, a tie towards \<open>+Infinity\<close>.\<close>

fun Math_round :: "jsnum \<Rightarrow> jsnum" where
  "Math_round (Fin a) = Fin (of_int \<lfloor>a + 1 / 2\<rfloor>)"
| "Math_round x = x"

text \<open>Truthiness, as \<open>if (this.name)\<close> and \<open>this.name && ...\<close> test it.\<close>

fun truthy :: "jsval \<Rightarrow> bool" where
  "truthy VUndefined = False"
| "truthy VNull = False"
| "truthy (VBool b) = b"
| "truthy (VNum n) = (n \<noteq> NaN \<and> n \<noteq> Fin 0)"
| "truthy (VStr s) = (s \<noteq> [])"
| "truthy (VArr xs) = True"
| "truthy (VObj kvs) = True"

section \<open>Helpers of \<open>index.js\<close>\<close>

definition roundToFourDecimals :: "jsnum \<Rightarrow> jsnum" where
  "roundToFourDecimals number =
     (let multiplier = Fin 10000
      in js_div (Math_round (js_mul number multiplier)) multiplier)"

definition sRGBToLinear :: "jsnum \<Rightarrow> jsnum" where
  "sRGBToLinear srgb =
     (if js_le srgb (Fin 0.04045) then js_div srgb (Fin 12.92)
      else js_pow (js_div (js_add srgb (Fin 0.055)) (Fin 1.055)) 2.4)"

definition linearToSRGB :: "jsnum \<Rightarrow> jsnum" where
  "linearToSRGB lin =
     (if js_le lin (Fin 0.0031308) then js_mul lin (Fin 12.92)
      else js_sub (js_mul (js_pow lin (1 / 2.4)) (Fin 1.055)) (Fin 0.055))"

definition clampOpacity :: "jsnum \<Rightarrow> jsnum" where
  "clampOpacity v = Math_max (Fin 0) (Math_min (Fin 1) v)"

text \<open>\<open>validateComponent\<close> returns nothing; the model hands back the number it accepted.\<close>

definition validateComponent :: "jsval \<Rightarrow> string \<Rightarrow> js_error + jsnum" where
  "validateComponent v nm =
     (case v of VNum n \<Rightarrow> Inr n | _ \<Rightarrow> Inl (TypeError (nm @ '' component must be a number'')))"

section \<open>The class \<open>Color\<close>\<close>

record Color =
  name :: jsval
  linearRed :: jsnum
  linearGreen :: jsnum
  linearBlue :: jsnum
  opacity :: jsnum

text \<open>
  The constructor. An \<open>opacity\<close> that is \<open>undefined\<close> takes the default 1; \<open>isLinear\<close>
  is the truth value of the option.
\<close>

definition Color_new ::
  "jsval \<Rightarrow> jsval \<Rightarrow> jsval \<Rightarrow> jsval \<Rightarrow> jsval \<Rightarrow> bool \<Rightarrow> js_error + Color" where
  "Color_new nm red green blue opacity_opt isLinear =
     (let opacity_arg = (if opacity_opt = VUndefined then VNum (Fin 1) else opacity_opt)
      in then_do (validateComponent red ''Red'') (\<lambda>r.
         then_do (validateComponent green ''Green'') (\<lambda>g.
         then_do (validateComponent blue ''Blue'') (\<lambda>b.
         then_do (validateComponent opacity_arg ''Opacity'') (\<lambda>a.
           Inr \<lparr> name = nm,
                 linearRed = roundToFourDecimals (if isLinear then r else sRGBToLinear r),
                 linearGreen = roundToFourDecimals (if isLinear then g else sRGBToLinear g),
                 linearBlue = roundToFourDecimals (if isLinear then b else sRGBToLinear b),
                 opacity = roundToFourDecimals (clampOpacity a) \<rparr>)))))"

definition linearComponents :: "Color \<Rightarrow> jsnum \<times> jsnum \<times> jsnum \<times> jsnum" where
  "linearComponents c = (linearRed c, linearGreen c, linearBlue c, opacity c)"

text \<open>The getters recompute the gamma-encoded value on every read.\<close>

definition Color_red :: "Color \<Rightarrow> jsnum" where
  "Color_red c = linearToSRGB (linearRed c)"

definition Color_green :: "Color \<Rightarrow> jsnum" where
  "Color_green c = linearToSRGB (linearGreen c)"

definition Color_blue :: "Color \<Rightarrow> jsnum" where
  "Color_blue c = linearToSRGB (linearBlue c)"

text \<open>The setters: state passing, the updated colour is returned.\<close>

definition Color_set_red :: "Color \<Rightarrow> jsval \<Rightarrow> js_error + Color" where
  "Color_set_red c v =
     (case v of VNum n \<Rightarrow> Inr (c\<lparr>linearRed := sRGBToLinear n\<rparr>)
      | _ \<Rightarrow> Inl (TypeError ''Red component must be a number''))"

definition Color_set_green :: "Color \<Rightarrow> jsval \<Rightarrow> js_error + Color" where
  "Color_set_green c v =
     (case v of VNum n \<Rightarrow> Inr (c\<lparr>linearGreen := sRGBToLinear n\<rparr>)
      | _ \<Rightarrow> Inl (TypeError ''Green component must be a number''))"

definition Color_set_blue :: "Color \<Rightarrow> jsval \<Rightarrow> js_error + Color" where
  "Color_set_blue c v =
     (case v of VNum n \<Rightarrow> Inr (c\<lparr>linearBlue := sRGBToLinear n\<rparr>)
      | _ \<Rightarrow> Inl (TypeError ''Blue component must be a number''))"

definition Color_set_opacity :: "Color \<Rightarrow> jsval \<Rightarrow> js_error + Color" where
  "Color_set_opacity c v =
     (case v of VNum n \<Rightarrow> Inr (c\<lparr>opacity := clampOpacity n\<rparr>)
      | _ \<Rightarrow> Inl (TypeError ''Opacity must be a number''))"

text \<open>\<open>toJSON\<close>: the array \<open>components\<close> first, then the object around it.\<close>

definition toJSON_components :: "Color \<Rightarrow> jsnum list" where
  "toJSON_components c =
     (let components = [roundToFourDecimals (linearRed c), roundToFourDecimals (linearGreen c),
                        roundToFourDecimals (linearBlue c)]
      in if js_strict_neq (opacity c) (Fin 1)
         then components @ [roundToFourDecimals (opacity c)] else components)"

definition Color_toJSON :: "Color \<Rightarrow> jsval" where
  "Color_toJSON c =
     (let result = [(''components'', VArr (map VNum (toJSON_components c)))]
      in VObj (if truthy (name c) then result @ [(''name'', name c)] else result))"

subsection \<open>Hexadecimal notation\<close>

text \<open>
  The bitwise operators work on 32-bit signed integers: \<open>x >> n\<close> is the arithmetic shift
  of \<open>ToInt32 x\<close>, and \<open>x & y\<close> the conjunction of \<open>ToInt32 x\<close> and \<open>ToInt32 y\<close>.
\<close>

definition js_shr :: "int \<Rightarrow> nat \<Rightarrow> int" where
  "js_shr x n = sint (signed_drop_bit n (word_of_int x :: 32 word))"

definition js_band :: "int \<Rightarrow> int \<Rightarrow> int" where
  "js_band x y = sint ((word_of_int x :: 32 word) AND word_of_int y)"

text \<open>A bit field over its largest value, as in \<open>((hex >> 8) & 0xF) / 15\<close>.\<close>

definition channel :: "int \<Rightarrow> int \<Rightarrow> jsval" where
  "channel v d = VNum (js_div (Fin (of_int v)) (Fin (of_int d)))"

text \<open>
  \<open>Number.isInteger\<close> holds of a finite number that equals its floor, and of nothing
  else. The colour is constructed without a name and from non-linear input.
\<close>

definition fromHexNumber :: "jsval \<Rightarrow> js_error + Color" where
  "fromHexNumber hex =
     (case hex of
        VNum (Fin x) \<Rightarrow>
          if of_int \<lfloor>x\<rfloor> \<noteq> x \<or> x < 0 then Inl (Error ''Invalid hex value'')
          else
            let h = \<lfloor>x\<rfloor> in
            if h \<le> 0xFFF then
              Color_new VUndefined (channel (js_band (js_shr h 8) 0xF) 15)
                (channel (js_band (js_shr h 4) 0xF) 15) (channel (js_band h 0xF) 15)
                (VNum (Fin 1)) False
            else if h \<le> 0xFFFF then
              Color_new VUndefined (channel (js_band (js_shr h 12) 0xF) 15)
                (channel (js_band (js_shr h 8) 0xF) 15) (channel (js_band (js_shr h 4) 0xF) 15)
                (channel (js_band h 0xF) 15) False
            else if h \<le> 0xFFFFFF then
              Color_new VUndefined (channel (js_band (js_shr h 16) 0xFF) 255)
                (channel (js_band (js_shr h 8) 0xFF) 255) (channel (js_band h 0xFF) 255)
                (VNum (Fin 1)) False
            else if h \<le> 0xFFFFFFFF then
              Color_new VUndefined (channel (js_band (js_shr h 24) 0xFF) 255)
                (channel (js_band (js_shr h 16) 0xFF) 255) (channel (js_band (js_shr h 8) 0xFF) 255)
                (channel (js_band h 0xFF) 255) False
            else Inl (Error ''Invalid hex value'')
      | _ \<Rightarrow> Inl (Error ''Invalid hex value''))"

text \<open>
  Strings are lists of code units below 256. \<open>trim\<close> strips white space and line
  terminators from both ends.
\<close>

definition is_space :: "char \<Rightarrow> bool" where
  "is_space c = (c \<in> set [CHR 0x09, CHR 0x0A, CHR 0x0B, CHR 0x0C, CHR 0x0D, CHR 0x20, CHR 0xA0])"

definition trim :: "string \<Rightarrow> string" where
  "trim s = rev (dropWhile is_space (rev (dropWhile is_space s)))"

definition hex_digit_value :: "char \<Rightarrow> nat option" where
  "hex_digit_value c =
     (let n = (of_char c :: nat)
      in if 48 \<le> n \<and> n \<le> 57 then Some (n - 48)
         else if 97 \<le> n \<and> n \<le> 102 then Some (n - 87)
         else if 65 \<le> n \<and> n \<le> 70 then Some (n - 55)
         else None)"

text \<open>The test of the regular expression \<open>/^[\da-f]{6}([\da-f]{2})?$/i\<close>.\<close>

definition hex_regex_test :: "string \<Rightarrow> bool" where
  "hex_regex_test s =
     ((length s = 6 \<or> length s = 8) \<and> list_all (\<lambda>c. hex_digit_value c \<noteq> None) s)"

text \<open>
  \<open>Number.parseInt(s, 16)\<close> on a string without sign, prefix or leading white space: the
  longest prefix of hexadecimal digits, \<open>NaN\<close> when it is empty.
\<close>

definition parseInt16 :: "string \<Rightarrow> jsnum" where
  "parseInt16 s =
     (let ds = takeWhile (\<lambda>c. hex_digit_value c \<noteq> None) s
      in if ds = [] then NaN
         else Fin (of_nat (foldl (\<lambda>acc c. acc * 16 + the (hex_digit_value c)) 0 ds)))"

definition fromHexString :: "string \<Rightarrow> js_error + Color" where
  "fromHexString hex =
     (let str = trim hex;
          withoutHash = (if str \<noteq> [] \<and> hd str = CHR ''#'' then tl str else str);
          expanded = (if length withoutHash = 3 \<or> length withoutHash = 4
                      then concat (map (\<lambda>x. [x, x]) withoutHash) else withoutHash)
      in if \<not> hex_regex_test expanded then Inl (Error ''Invalid hex color format'')
         else fromHexNumber (VNum (parseInt16 expanded)))"

section \<open>The class \<open>ColorPalette\<close>\<close>

record ColorPalette =
  palette_name :: jsval
  colors :: "Color list"

text \<open>
  The constructor's checks (\<open>colors\<close> is an array, each element an instance of \<open>Color\<close>)
  are the type of the argument here; it keeps a copy of the list.
\<close>

definition ColorPalette_new :: "Color list \<Rightarrow> jsval \<Rightarrow> ColorPalette" where
  "ColorPalette_new cs nm = \<lparr> palette_name = nm, colors = cs \<rparr>"

text \<open>
  \<open>JSON.stringify\<close> calls \<open>toJSON\<close> on the palette and then on each colour of the result,
  so the tree it writes is this one.
\<close>

definition ColorPalette_toJSON :: "ColorPalette \<Rightarrow> jsval" where
  "ColorPalette_toJSON p =
     VObj ((if truthy (palette_name p) then [(''name'', palette_name p)] else [])
           @ [(''colors'', VArr (map Color_toJSON (colors p)))])"

text \<open>
  \<open>JSON.stringify\<close> and \<open>JSON.parse\<close> belong to the host, not to the program: they are
  parameters of \<open>serialize\<close> and \<open>deserialize\<close>, and \<open>'t\<close> is the type of texts.
\<close>

definition serialize :: "(jsval \<Rightarrow> 't) \<Rightarrow> ColorPalette \<Rightarrow> 't" where
  "serialize JSON_stringify p = JSON_stringify (ColorPalette_toJSON p)"

text \<open>
  Reading a property of a parsed value. An object is an association list with distinct
  keys. Only \<open>colors\<close>, \<open>components\<close> and \<open>name\<close> are read, which no primitive and no
  array has; reading from \<open>null\<close> throws, with the message of V8.
\<close>

fun get_prop :: "jsval \<Rightarrow> string \<Rightarrow> js_error + jsval" where
  "get_prop VUndefined k =
     Inl (TypeError (''Cannot read properties of undefined (reading '' @ [CHR 0x27] @ k
       @ [CHR 0x27] @ '')''))"
| "get_prop VNull k =
     Inl (TypeError (''Cannot read properties of null (reading '' @ [CHR 0x27] @ k
       @ [CHR 0x27] @ '')''))"
| "get_prop (VObj kvs) k = Inr (case map_of kvs k of None \<Rightarrow> VUndefined | Some v \<Rightarrow> v)"
| "get_prop v k = Inr VUndefined"

text \<open>The loop over the components in \<open>validateColorComponent\<close>.\<close>

fun validate_values :: "jsval list \<Rightarrow> js_error + unit" where
  "validate_values [] = Inr ()"
| "validate_values (VNum n # cs) =
     (if js_lt n (Fin 0) then Inl (Error ''Component values must be numbers'')
      else validate_values cs)"
| "validate_values (v # cs) = Inl (Error ''Component values must be numbers'')"

definition validateColorComponent :: "jsval \<Rightarrow> js_error + unit" where
  "validateColorComponent color =
     then_do (get_prop color ''components'') (\<lambda>components.
       case components of
         VArr cs \<Rightarrow>
           if length cs \<noteq> 3 \<and> length cs \<noteq> 4
           then Inl (Error ''Components must have 3 or 4 values'')
           else validate_values cs
       | _ \<Rightarrow> Inl (TypeError ''Components must be an array''))"

text \<open>The loop over the colours in \<open>validatePalette\<close>.\<close>

fun validate_colors :: "jsval list \<Rightarrow> js_error + unit" where
  "validate_colors [] = Inr ()"
| "validate_colors (color # rest) =
     then_do (validateColorComponent color) (\<lambda>_. validate_colors rest)"

definition validatePalette :: "jsval \<Rightarrow> js_error + unit" where
  "validatePalette palette =
     then_do (get_prop palette ''colors'') (\<lambda>cs.
       case cs of
         VArr entries \<Rightarrow> validate_colors entries
       | _ \<Rightarrow> Inl (TypeError ''Colors must be an array''))"

text \<open>
  The callback of \<open>parsed.colors.map\<close>. It runs after \<open>validatePalette\<close>, on an entry
  whose \<open>components\<close> are three or four numbers; any other shape does not reach it and
  is answered with an internal error here.
\<close>

definition unreachable :: "js_error + 'a" where
  "unreachable = Inl (Error ''unreachable after validatePalette'')"

definition entry_to_Color :: "jsval \<Rightarrow> js_error + Color" where
  "entry_to_Color color =
     then_do (get_prop color ''components'') (\<lambda>components.
     then_do (get_prop color ''name'') (\<lambda>nm.
       case components of
         VArr [VNum red, VNum green, VNum blue] \<Rightarrow>
           Color_new nm (VNum (roundToFourDecimals red)) (VNum (roundToFourDecimals green))
             (VNum (roundToFourDecimals blue)) (VNum (roundToFourDecimals (Fin 1))) True
       | VArr [VNum red, VNum green, VNum blue, VNum opacity_value] \<Rightarrow>
           Color_new nm (VNum (roundToFourDecimals red)) (VNum (roundToFourDecimals green))
             (VNum (roundToFourDecimals blue)) (VNum (roundToFourDecimals opacity_value)) True
       | _ \<Rightarrow> unreachable))"

fun map_all :: "('a \<Rightarrow> 'e + 'b) \<Rightarrow> 'a list \<Rightarrow> 'e + 'b list" where
  "map_all f [] = Inr []"
| "map_all f (x # xs) = then_do (f x) (\<lambda>y. then_do (map_all f xs) (\<lambda>ys. Inr (y # ys)))"

definition deserialize :: "('t \<Rightarrow> js_error + jsval) \<Rightarrow> 't \<Rightarrow> js_error + ColorPalette" where
  "deserialize JSON_parse data =
     then_do (JSON_parse data) (\<lambda>parsed.
     then_do (validatePalette parsed) (\<lambda>_.
     then_do (get_prop parsed ''colors'') (\<lambda>cs.
       case cs of
         VArr entries \<Rightarrow>
           then_do (map_all entry_to_Color entries) (\<lambda>new_colors.
           then_do (get_prop parsed ''name'') (\<lambda>nm. Inr (ColorPalette_new new_colors nm)))
       | _ \<Rightarrow> unreachable)))"

section \<open>Binary64 rounding\<close>

text \<open>
  The definitions above compute with exact arithmetic. The program computes in binary64:
  the value of a sum, a product or a quotient is the exact result rounded to the nearest
  double, a tie to the even significand, with 53 bits of significand, exponents from -1022
  to 1023, subnormal numbers below and an infinity above. This section writes that
  rounding out, and with it \<open>roundToFourDecimals\<close> and the code that feeds its result back
  into it: the constructor, \<open>toJSON\<close> and \<open>deserialize\<close>. The sign of zero is not
  modelled here either.
\<close>

text \<open>The nearest integer, a tie to the even one.\<close>

definition round_half_even :: "real \<Rightarrow> int" where
  "round_half_even t =
     (let f = \<lfloor>t\<rfloor>
      in if t - of_int f < 1 / 2 then f
         else if 1 / 2 < t - of_int f then f + 1
         else if even f then f else f + 1)"

text \<open>
  The distance between neighbouring doubles at \<open>x\<close>: \<open>2 ^ (e - 52)\<close> where \<open>2 ^ e\<close> is the
  power of two at or below \<open>\<bar>x\<bar>\<close>, and \<open>2 ^ (- 1074)\<close> among the subnormal numbers.
\<close>

definition binary64_ulp :: "real \<Rightarrow> real" where
  "binary64_ulp x = 2 powr (of_int (max \<lfloor>log 2 \<bar>x\<bar>\<rfloor> (- 1022)) - 52)"

definition nearest :: "real \<Rightarrow> real" where
  "nearest x = of_int (round_half_even (x / binary64_ulp x)) * binary64_ulp x"

text \<open>The double a real result is rounded to; beyond the largest double, an infinity.\<close>

definition binary64 :: "real \<Rightarrow> jsnum" where
  "binary64 x =
     (if x = 0 then Fin 0
      else if 2 ^ 1024 \<le> \<bar>nearest x\<bar> then (if 0 < x then PInf else NInf)
      else Fin (nearest x))"

text \<open>The result of an operation of the section on arithmetic, as binary64 returns it.\<close>

definition rounded :: "jsnum \<Rightarrow> jsnum" where
  "rounded v = (case v of Fin z \<Rightarrow> binary64 z | _ \<Rightarrow> v)"

definition roundToFourDecimals_binary64 :: "jsnum \<Rightarrow> jsnum" where
  "roundToFourDecimals_binary64 number =
     (let multiplier = Fin 10000
      in rounded (js_div (Math_round (rounded (js_mul number multiplier))) multiplier))"

subsection \<open>The classes in binary64\<close>

text \<open>
  \<open>sRGBToLinear\<close> with each operation rounded and each literal the double nearest to it.
  ECMAScript leaves the precision of \<open>**\<close> to the engine (the result is an approximation
  of the mathematical power), so the power is a parameter \<open>pow\<close>, as \<open>JSON.parse\<close> is
  below.
\<close>

definition sRGBToLinear_binary64 :: "(jsnum \<Rightarrow> jsnum \<Rightarrow> jsnum) \<Rightarrow> jsnum \<Rightarrow> jsnum" where
  "sRGBToLinear_binary64 pow srgb =
     (if js_le srgb (binary64 0.04045) then rounded (js_div srgb (binary64 12.92))
      else pow (rounded (js_div (rounded (js_add srgb (binary64 0.055))) (binary64 1.055)))
             (binary64 2.4))"

text \<open>The constructor and the three channel setters, word for word as above.\<close>

definition Color_new_binary64 ::
  "(jsnum \<Rightarrow> jsnum \<Rightarrow> jsnum) \<Rightarrow> jsval \<Rightarrow> jsval \<Rightarrow> jsval \<Rightarrow> jsval \<Rightarrow> jsval \<Rightarrow> bool
     \<Rightarrow> js_error + Color" where
  "Color_new_binary64 pow nm red green blue opacity_opt isLinear =
     (let opacity_arg = (if opacity_opt = VUndefined then VNum (Fin 1) else opacity_opt)
      in then_do (validateComponent red ''Red'') (\<lambda>r.
         then_do (validateComponent green ''Green'') (\<lambda>g.
         then_do (validateComponent blue ''Blue'') (\<lambda>b.
         then_do (validateComponent opacity_arg ''Opacity'') (\<lambda>a.
           Inr \<lparr> name = nm,
                 linearRed = roundToFourDecimals_binary64
                   (if isLinear then r else sRGBToLinear_binary64 pow r),
                 linearGreen = roundToFourDecimals_binary64
                   (if isLinear then g else sRGBToLinear_binary64 pow g),
                 linearBlue = roundToFourDecimals_binary64
                   (if isLinear then b else sRGBToLinear_binary64 pow b),
                 opacity = roundToFourDecimals_binary64 (clampOpacity a) \<rparr>)))))"




text \<open>\<open>toJSON\<close> of a colour and of a palette, and \<open>serialize\<close>.\<close>

definition toJSON_components_binary64 :: "Color \<Rightarrow> jsnum list" where
  "toJSON_components_binary64 c =
     (let components = [roundToFourDecimals_binary64 (linearRed c),
                        roundToFourDecimals_binary64 (linearGreen c),
                        roundToFourDecimals_binary64 (linearBlue c)]
      in if js_strict_neq (opacity c) (Fin 1)
         then components @ [roundToFourDecimals_binary64 (opacity c)] else components)"

definition Color_toJSON_binary64 :: "Color \<Rightarrow> jsval" where
  "Color_toJSON_binary64 c =
     (let result = [(''components'', VArr (map VNum (toJSON_components_binary64 c)))]
      in VObj (if truthy (name c) then result @ [(''name'', name c)] else result))"

definition ColorPalette_toJSON_binary64 :: "ColorPalette \<Rightarrow> jsval" where
  "ColorPalette_toJSON_binary64 p =
     VObj ((if truthy (palette_name p) then [(''name'', palette_name p)] else [])
           @ [(''colors'', VArr (map Color_toJSON_binary64 (colors p)))])"

definition serialize_binary64 :: "(jsval \<Rightarrow> 't) \<Rightarrow> ColorPalette \<Rightarrow> 't" where
  "serialize_binary64 JSON_stringify p = JSON_stringify (ColorPalette_toJSON_binary64 p)"

text \<open>
  \<open>deserialize\<close>. Validation compares and does not compute, so \<open>validatePalette\<close> is the
  one above.
\<close>

definition entry_to_Color_binary64 ::
  "(jsnum \<Rightarrow> jsnum \<Rightarrow> jsnum) \<Rightarrow> jsval \<Rightarrow> js_error + Color" where
  "entry_to_Color_binary64 pow color =
     then_do (get_prop color ''components'') (\<lambda>components.
     then_do (get_prop color ''name'') (\<lambda>nm.
       case components of
         VArr [VNum red, VNum green, VNum blue] \<Rightarrow>
           Color_new_binary64 pow nm (VNum (roundToFourDecimals_binary64 red))
             (VNum (roundToFourDecimals_binary64 green))
             (VNum (roundToFourDecimals_binary64 blue))
             (VNum (roundToFourDecimals_binary64 (Fin 1))) True
       | VArr [VNum red, VNum green, VNum blue, VNum opacity_value] \<Rightarrow>
           Color_new_binary64 pow nm (VNum (roundToFourDecimals_binary64 red))
             (VNum (roundToFourDecimals_binary64 green))
             (VNum (roundToFourDecimals_binary64 blue))
             (VNum (roundToFourDecimals_binary64 opacity_value)) True
       | _ \<Rightarrow> unreachable))"

definition deserialize_binary64 ::
  "(jsnum \<Rightarrow> jsnum \<Rightarrow> jsnum) \<Rightarrow> ('t \<Rightarrow> js_error + jsval) \<Rightarrow> 't \<Rightarrow> js_error + ColorPalette" where
  "deserialize_binary64 pow JSON_parse data =
     then_do (JSON_parse data) (\<lambda>parsed.
     then_do (validatePalette parsed) (\<lambda>_.
     then_do (get_prop parsed ''colors'') (\<lambda>cs.
       case cs of
         VArr entries \<Rightarrow>
           then_do (map_all (entry_to_Color_binary64 pow) entries) (\<lambda>new_colors.
           then_do (get_prop parsed ''name'') (\<lambda>nm. Inr (ColorPalette_new new_colors nm)))
       | _ \<Rightarrow> unreachable)))"

section \<open>Notions used in the statements\<close>

definition non_finite :: "jsnum \<Rightarrow> bool" where
  "non_finite x = (case x of Fin a \<Rightarrow> False | _ \<Rightarrow> True)"

text \<open>
  The four readings of a hexadecimal number, in the words of the specification: three or
  four digits of four bits, each over 15, and three or four bytes, each over 255.
\<close>

definition decode_rgb4 :: "int \<Rightarrow> js_error + Color" where
  "decode_rgb4 n = Color_new VUndefined (channel (n div 256 mod 16) 15) (channel (n div 16 mod 16) 15)
     (channel (n mod 16) 15) (VNum (Fin 1)) False"

definition decode_rgba4 :: "int \<Rightarrow> js_error + Color" where
  "decode_rgba4 n = Color_new VUndefined (channel (n div 4096 mod 16) 15) (channel (n div 256 mod 16) 15)
     (channel (n div 16 mod 16) 15) (channel (n mod 16) 15) False"

definition decode_rgb8 :: "int \<Rightarrow> js_error + Color" where
  "decode_rgb8 n = Color_new VUndefined (channel (n div 65536 mod 256) 255) (channel (n div 256 mod 256) 255)
     (channel (n mod 256) 255) (VNum (Fin 1)) False"

definition decode_rgba8 :: "int \<Rightarrow> js_error + Color" where
  "decode_rgba8 n = Color_new VUndefined (channel (n div 16777216 mod 256) 255)
     (channel (n div 65536 mod 256) 255) (channel (n div 256 mod 256) 255)
     (channel (n mod 256) 255) False"

text \<open>A number \<open>fromHexNumber\<close> accepts: an integer from 0 to \<open>0xFFFFFFFF\<close>.\<close>

definition valid_hex_number :: "jsval \<Rightarrow> bool" where
  "valid_hex_number hex =
     (case hex of VNum (Fin x) \<Rightarrow> of_int \<lfloor>x\<rfloor> = x \<and> 0 \<le> x \<and> x \<le> 0xFFFFFFFF | _ \<Rightarrow> False)"

definition Array_isArray :: "jsval \<Rightarrow> bool" where
  "Array_isArray v = (case v of VArr xs \<Rightarrow> True | _ \<Rightarrow> False)"

text \<open>
  A stand-in for \<open>JSON.parse\<close> on the five texts of the validation test: what the host
  answers on each of them, with the message V8 gives for a text that is not JSON.
\<close>

definition sample_parse :: "string \<Rightarrow> js_error + jsval" where
  \<open>sample_parse text =
     (if text = ''{}'' then Inr (VObj [])
      else if text = ''{"colors":[{"components":"invalid"}]}''
        then Inr (VObj [(''colors'', VArr [VObj [(''components'', VStr ''invalid'')]])])
      else if text = ''{"colors":[{"components":[1,2]}]}''
        then Inr (VObj [(''colors'', VArr [VObj [(''components'', VArr [VNum (Fin 1), VNum (Fin 2)])]])])
      else if text = ''{"colors":[{"components":[-1,0,0]}]}''
        then Inr (VObj [(''colors'',
               VArr [VObj [(''components'', VArr [VNum (Fin (- 1)), VNum (Fin 0), VNum (Fin 0)])]])])
      else Inl (SyntaxError (''Unexpected token '/', "'' @ text @ ''" is not valid JSON'')))\<close>

text \<open>What the round trip through \<open>serialize\<close> and \<open>deserialize\<close> asks of a stored colour.\<close>

definition nonneg_finite :: "jsnum \<Rightarrow> bool" where
  "nonneg_finite x = (case x of Fin a \<Rightarrow> 0 \<le> a | _ \<Rightarrow> False)"

text \<open>A finite number of magnitude at most \<open>1e11\<close>.\<close>

definition moderate :: "jsnum \<Rightarrow> bool" where
  "moderate x = (case x of Fin a \<Rightarrow> \<bar>a\<bar> \<le> 10 ^ 11 | _ \<Rightarrow> False)"

definition serializable :: "Color \<Rightarrow> bool" where
  "serializable c =
     (nonneg_finite (linearRed c) \<and> moderate (linearRed c)
      \<and> nonneg_finite (linearGreen c) \<and> moderate (linearGreen c)
      \<and> nonneg_finite (linearBlue c) \<and> moderate (linearBlue c)
      \<and> opacity c \<noteq> NaN)"

text \<open>
  A stand-in for the engine's \<open>**\<close> where an example needs one: the exact power, rounded.
\<close>

definition sample_pow :: "jsnum \<Rightarrow> jsnum \<Rightarrow> jsnum" where
  "sample_pow x y = (case y of Fin e \<Rightarrow> rounded (js_pow x e) | _ \<Rightarrow> NaN)"

text \<open>A name that is falsy is left out of the document and comes back as \<open>undefined\<close>.\<close>

definition kept_name :: "jsval \<Rightarrow> jsval" where
  "kept_name n = (if truthy n then n else VUndefined)"

text \<open>The palette of the round-trip test, as its two constructor calls store it.\<close>

definition test_red :: Color where
  "test_red = \<lparr> name = VStr ''Red'', linearRed = Fin 1, linearGreen = Fin 0, linearBlue = Fin 0,
                opacity = Fin 1 \<rparr>"

definition test_green :: Color where
  "test_green = \<lparr> name = VStr ''Green'', linearRed = Fin 0, linearGreen = Fin 1,
                  linearBlue = Fin 0, opacity = Fin 0.5 \<rparr>"

definition test_palette :: ColorPalette where
  "test_palette = \<lparr> palette_name = VStr ''Test'', colors = [test_red, test_green] \<rparr>"

text \<open>
  Two numbers agree within a tolerance, as \<open>Math.abs(x - y) <= tol\<close> tests it: never when
  one of them is not finite.
\<close>

definition close_to :: "real \<Rightarrow> jsnum \<Rightarrow> jsnum \<Rightarrow> bool" where
  "close_to tol x y =
     (case x of Fin a \<Rightarrow> (case y of Fin b \<Rightarrow> \<bar>a - b\<bar> \<le> tol | _ \<Rightarrow> False) | _ \<Rightarrow> False)"

text \<open>A colour to start from in the examples: opaque black without a name.\<close>

definition black :: Color where
  "black = \<lparr> name = VUndefined, linearRed = Fin 0, linearGreen = Fin 0, linearBlue = Fin 0,
             opacity = Fin 1 \<rparr>"

section \<open>Basic facts\<close>

lemma then_do_simps [simp]:
  "then_do (Inl e) f = Inl e" "then_do (Inr x) f = f x"
  by (simp_all add: then_do_def)

lemma round4_Fin:
  "roundToFourDecimals (Fin a) = Fin (of_int \<lfloor>a * 10000 + 1 / 2\<rfloor> / 10000)"
  by (simp add: roundToFourDecimals_def)

lemma round4_special:
  "roundToFourDecimals NaN = NaN"
  "roundToFourDecimals PInf = PInf"
  "roundToFourDecimals NInf = NInf"
  by (simp_all add: roundToFourDecimals_def)

lemma round4_0_1: "roundToFourDecimals (Fin 0) = Fin 0" "roundToFourDecimals (Fin 1) = Fin 1"
  by (simp_all add: round4_Fin)

lemma round4_non_finite: "non_finite x \<Longrightarrow> roundToFourDecimals x = x"
  by (cases x) (simp_all add: non_finite_def round4_special)

lemma sRGBToLinear_non_finite: "non_finite x \<Longrightarrow> sRGBToLinear x = x"
  by (cases x) (simp_all add: non_finite_def sRGBToLinear_def)

lemma sRGBToLinear_0_1: "sRGBToLinear (Fin 0) = Fin 0" "sRGBToLinear (Fin 1) = Fin 1"
  by (simp_all add: sRGBToLinear_def)

lemma clampOpacity_Fin:
  "clampOpacity (Fin v) = Fin (if 1 < v then 1 else if v < 0 then 0 else v)"
  by (simp add: clampOpacity_def Math_max_def Math_min_def)

lemma clampOpacity_non_finite:
  "non_finite x \<Longrightarrow> clampOpacity x = (case x of PInf \<Rightarrow> Fin 1 | NInf \<Rightarrow> Fin 0 | _ \<Rightarrow> NaN)"
  by (cases x) (simp_all add: non_finite_def clampOpacity_def Math_max_def Math_min_def)

lemma strict_neq_one: "js_strict_neq x (Fin 1) = (x \<noteq> Fin 1)"
  by (auto simp: js_strict_neq_def)

lemma Color_new_numbers:
  "Color_new nm (VNum r) (VNum g) (VNum b) (VNum a) lin =
     Inr \<lparr> name = nm,
           linearRed = roundToFourDecimals (if lin then r else sRGBToLinear r),
           linearGreen = roundToFourDecimals (if lin then g else sRGBToLinear g),
           linearBlue = roundToFourDecimals (if lin then b else sRGBToLinear b),
           opacity = roundToFourDecimals (clampOpacity a) \<rparr>"
  by (simp add: Color_new_def validateComponent_def then_do_def)

subsection \<open>Bit fields of a 32-bit integer\<close>

lemma bit_extract:
  fixes W :: "32 word"
  assumes "k + w \<le> 32" "w < 32"
  shows "sint (signed_drop_bit k W AND mask w) = take_bit w (drop_bit k (uint W))"
proof -
  have "signed_drop_bit k W AND mask w = take_bit w (drop_bit k W)"
    using assms by (intro bit_eqI) (auto simp add: bit_simps)
  moreover have "sint (take_bit w (drop_bit k W)) = uint (take_bit w (drop_bit k W))"
    using assms by (intro bit_eqI) (auto simp add: bit_simps)
  moreover have "uint (take_bit w (drop_bit k W)) = take_bit w (drop_bit k (uint W))"
    by (intro bit_eqI) (auto simp add: bit_simps dest: bit_imp_le_length)
  ultimately show ?thesis by simp
qed

lemma js_band_shr:
  assumes "0 \<le> h" "h < 2 ^ 32" "k + w \<le> 32" "w < 32"
  shows "js_band (js_shr h k) (2 ^ w - 1) = (h div 2 ^ k) mod 2 ^ w"
proof -
  have "js_band (js_shr h k) (2 ^ w - 1)
      = sint (signed_drop_bit k (word_of_int h :: 32 word) AND mask w)"
    by (simp add: js_band_def js_shr_def mask_eq_exp_minus_1)
  also have "\<dots> = take_bit w (drop_bit k (uint (word_of_int h :: 32 word)))"
    using assms by (simp add: bit_extract)
  also have "uint (word_of_int h :: 32 word) = h"
    using assms by (simp add: uint_word_of_int take_bit_int_eq_self)
  finally show ?thesis by (simp add: take_bit_eq_mod drop_bit_eq_div)
qed

lemma js_band_low:
  assumes "0 \<le> h" "h < 2 ^ 32" "w < 32"
  shows "js_band h (2 ^ w - 1) = h mod 2 ^ w"
proof -
  have "js_shr h 0 = sint (word_of_int h :: 32 word)"
    by (simp add: js_shr_def)
  then have "js_band h (2 ^ w - 1) = js_band (js_shr h 0) (2 ^ w - 1)"
    by (simp add: js_band_def)
  also have "\<dots> = (h div 2 ^ 0) mod 2 ^ w"
    by (rule js_band_shr) (use assms in simp_all)
  finally show ?thesis by simp
qed

lemma in_range: "0 \<le> h \<Longrightarrow> h \<le> 0xFFFFFFFF \<Longrightarrow> h < (2::int) ^ 32"
  by simp

lemma hex_fields:
  assumes "0 \<le> h" "h \<le> 0xFFFFFFFF"
  shows "js_band h 0xF = h mod 16"
    and "js_band (js_shr h 4) 0xF = h div 16 mod 16"
    and "js_band (js_shr h 8) 0xF = h div 256 mod 16"
    and "js_band (js_shr h 12) 0xF = h div 4096 mod 16"
    and "js_band h 0xFF = h mod 256"
    and "js_band (js_shr h 8) 0xFF = h div 256 mod 256"
    and "js_band (js_shr h 16) 0xFF = h div 65536 mod 256"
    and "js_band (js_shr h 24) 0xFF = h div 16777216 mod 256"
proof -
  note r = in_range [OF assms]
  show "js_band h 0xF = h mod 16"
    using js_band_low [OF assms(1) r, of 4] by simp
  show "js_band (js_shr h 4) 0xF = h div 16 mod 16"
    using js_band_shr [OF assms(1) r, of 4 4] by simp
  show "js_band (js_shr h 8) 0xF = h div 256 mod 16"
    using js_band_shr [OF assms(1) r, of 8 4] by simp
  show "js_band (js_shr h 12) 0xF = h div 4096 mod 16"
    using js_band_shr [OF assms(1) r, of 12 4] by simp
  show "js_band h 0xFF = h mod 256"
    using js_band_low [OF assms(1) r, of 8] by simp
  show "js_band (js_shr h 8) 0xFF = h div 256 mod 256"
    using js_band_shr [OF assms(1) r, of 8 8] by simp
  show "js_band (js_shr h 16) 0xFF = h div 65536 mod 256"
    using js_band_shr [OF assms(1) r, of 16 8] by simp
  show "js_band (js_shr h 24) 0xFF = h div 16777216 mod 256"
    using js_band_shr [OF assms(1) r, of 24 8] by simp
qed

subsection \<open>\<open>fromHexNumber\<close> on integers\<close>

lemma fromHexNumber_int:
  "fromHexNumber (VNum (Fin (of_int n))) =
     (if n < 0 \<or> 0xFFFFFFFF < n then Inl (Error ''Invalid hex value'')
      else if n \<le> 0xFFF then decode_rgb4 n
      else if n \<le> 0xFFFF then decode_rgba4 n
      else if n \<le> 0xFFFFFF then decode_rgb8 n
      else decode_rgba8 n)"
proof (cases "0 \<le> n \<and> n \<le> 0xFFFFFFFF")
  case True
  then have a: "0 \<le> n" and b: "n \<le> 0xFFFFFFFF" by simp_all
  show ?thesis
    unfolding fromHexNumber_def decode_rgb4_def decode_rgba4_def decode_rgb8_def decode_rgba8_def
    using a b by (simp add: hex_fields [OF a b] Let_def)
next
  case False
  then show ?thesis
    by (auto simp add: fromHexNumber_def Let_def)
qed

lemma decoders_return:
  "\<exists>c. decode_rgb4 n = Inr c" "\<exists>c. decode_rgba4 n = Inr c" "\<exists>c. decode_rgb8 n = Inr c" "\<exists>c. decode_rgba8 n = Inr c"
  by (simp_all add: decode_rgb4_def decode_rgba4_def decode_rgb8_def decode_rgba8_def channel_def Color_new_numbers)

lemma valid_hex_numberE:
  assumes "valid_hex_number hex"
  obtains n where "hex = VNum (Fin (of_int n))" "0 \<le> n" "n \<le> 0xFFFFFFFF"
proof -
  from assms obtain x where x: "hex = VNum (Fin x)" "of_int \<lfloor>x\<rfloor> = x" "0 \<le> x" "x \<le> 0xFFFFFFFF"
    by (auto simp: valid_hex_number_def split: jsval.splits jsnum.splits simp del: of_int_floor_cancel)
  from x(2) obtain n where n: "x = of_int n" by (metis)
  with x(3,4) have "0 \<le> n" "n \<le> 0xFFFFFFFF" by simp_all
  with x(1) n show thesis using that by simp
qed

lemma fromHexNumber_in_range:
  assumes "valid_hex_number hex"
  shows "\<exists>c. fromHexNumber hex = Inr c"
proof -
  from assms obtain n where n: "hex = VNum (Fin (of_int n))" "0 \<le> n" "n \<le> 0xFFFFFFFF"
    by (rule valid_hex_numberE)
  then show ?thesis
    using decoders_return [of n] by (simp add: fromHexNumber_int)
qed

lemma fromHexNumber_out_of_range:
  assumes "\<not> valid_hex_number hex"
  shows "fromHexNumber hex = Inl (Error ''Invalid hex value'')"
proof (cases hex)
  case (VNum v)
  show ?thesis
  proof (cases v)
    case (Fin x)
    show ?thesis
    proof (cases "of_int \<lfloor>x\<rfloor> = x")
      case True
      then obtain n where n: "x = of_int n" by metis
      from assms VNum Fin True have "\<not> (0 \<le> x \<and> x \<le> 0xFFFFFFFF)"
        by (simp add: valid_hex_number_def del: of_int_floor_cancel)
      with n have "n < 0 \<or> 0xFFFFFFFF < n" by auto
      then have "fromHexNumber (VNum (Fin (of_int n))) = Inl (Error ''Invalid hex value'')"
        by (simp only: fromHexNumber_int if_True)
      with n VNum Fin show ?thesis by simp
    next
      case False
      then show ?thesis
        unfolding VNum Fin fromHexNumber_def by (simp del: of_int_floor_cancel)
    qed
  qed (simp_all add: VNum fromHexNumber_def)
qed (simp_all add: fromHexNumber_def)

section \<open>Rounding at construction\<close>

text \<open>
  C8. Constructing a linear colour from red 0.12345, green 0.1235, blue 0.12344 and
  opacity 0.12349 gives the linear components 0.1235, 0.1235, 0.1234 and 0.1235: the
  tie in the fourth decimal of red is rounded up.
\<close>

theorem precision_rounding:
  "\<exists>c. Color_new VUndefined (VNum (Fin 0.12345)) (VNum (Fin 0.1235)) (VNum (Fin 0.12344))
          (VNum (Fin 0.12349)) True = Inr c
       \<and> linearComponents c = (Fin 0.1235, Fin 0.1235, Fin 0.1234, Fin 0.1235)"
  by (simp add: Color_new_def validateComponent_def then_do_def roundToFourDecimals_def
      clampOpacity_def Math_max_def Math_min_def linearComponents_def)

section \<open>\<open>roundToFourDecimals\<close> in binary64\<close>

lemma round_half_even_error: "\<bar>of_int (round_half_even t) - t\<bar> \<le> 1 / 2"
  unfolding round_half_even_def Let_def by (auto simp: abs_le_iff)

lemma ulp_pos: "0 < binary64_ulp x"
  by (simp add: binary64_ulp_def)

lemma ulp_small:
  assumes "x \<noteq> 0" "\<bar>x\<bar> < 2 ^ 51"
  shows "binary64_ulp x \<le> 1 / 4"
proof -
  have "log 2 \<bar>x\<bar> < 51"
    using assms by (simp add: log_less_iff)
  then have "\<lfloor>log 2 \<bar>x\<bar>\<rfloor> \<le> 50" by linarith
  then have "real_of_int (max \<lfloor>log 2 \<bar>x\<bar>\<rfloor> (- 1022)) - 52 \<le> - 2" by simp
  then have "binary64_ulp x \<le> 2 powr (- 2)"
    unfolding binary64_ulp_def by (intro powr_mono) simp_all
  then show ?thesis by (simp add: powr_neg_numeral)
qed

lemma ulp_relative:
  assumes "1 / 10 ^ 4 \<le> \<bar>x\<bar>"
  shows "binary64_ulp x \<le> \<bar>x\<bar> / 2 ^ 52"
proof -
  have "(0::real) < 1 / 10 ^ 4" by simp
  with assms have x: "0 < \<bar>x\<bar>" by linarith
  have "(2::real) powr (- 14) \<le> 1 / 10 ^ 4" by (simp add: powr_neg_numeral)
  with assms have "2 powr (- 14) \<le> \<bar>x\<bar>" by linarith
  then have "- 14 \<le> log 2 \<bar>x\<bar>" using x by (simp add: le_log_iff)
  then have "- 14 \<le> \<lfloor>log 2 \<bar>x\<bar>\<rfloor>" by linarith
  then have m: "max \<lfloor>log 2 \<bar>x\<bar>\<rfloor> (- 1022) = \<lfloor>log 2 \<bar>x\<bar>\<rfloor>" by simp
  have "2 powr (of_int \<lfloor>log 2 \<bar>x\<bar>\<rfloor>) \<le> 2 powr (log 2 \<bar>x\<bar>)"
    by (intro powr_mono) simp_all
  also have "\<dots> = \<bar>x\<bar>" using x by simp
  finally have "2 powr (of_int \<lfloor>log 2 \<bar>x\<bar>\<rfloor>) \<le> \<bar>x\<bar>" .
  moreover have "binary64_ulp x = 2 powr (of_int \<lfloor>log 2 \<bar>x\<bar>\<rfloor>) / 2 ^ 52"
    unfolding binary64_ulp_def m by (simp add: powr_diff)
  ultimately show ?thesis by (simp add: divide_right_mono)
qed


lemma nearest_error: "\<bar>nearest x - x\<bar> \<le> binary64_ulp x / 2"
proof -
  define u where "u = binary64_ulp x"
  have u: "0 < u" by (simp add: u_def ulp_pos)
  have "nearest x - x = (of_int (round_half_even (x / u)) - x / u) * u"
    using u by (simp add: nearest_def u_def algebra_simps)
  then have "\<bar>nearest x - x\<bar> = \<bar>of_int (round_half_even (x / u)) - x / u\<bar> * u"
    using u by (simp add: abs_mult)
  also have "\<dots> \<le> 1 / 2 * u"
    using u round_half_even_error [of "x / u"] by (intro mult_right_mono) simp_all
  finally show ?thesis by (simp add: u_def)
qed

lemma binary64_Fin:
  assumes "x \<noteq> 0" "\<bar>nearest x\<bar> < 2 ^ 1024"
  shows "binary64 x = Fin (nearest x)"
  using assms by (simp add: binary64_def)

lemma binary64_FinD:
  assumes "binary64 x = Fin r"
  shows "r = (if x = 0 then 0 else nearest x)"
  using assms by (auto simp add: binary64_def split: if_splits)


lemma nearest_relative:
  assumes "1 / 10 ^ 4 \<le> \<bar>x\<bar>"
  shows "\<bar>nearest x - x\<bar> \<le> \<bar>x\<bar> / 2 ^ 53"
  using nearest_error [of x] ulp_relative [OF assms] by simp

lemma nearest_absolute:
  assumes "x \<noteq> 0" "\<bar>x\<bar> < 2 ^ 51"
  shows "\<bar>nearest x - x\<bar> \<le> 1 / 8"
  using nearest_error [of x] ulp_small [OF assms] by simp

lemma binary64_of_multiple:
  fixes k :: int
  assumes "\<bar>k\<bar> < 2 ^ 51"
  shows "roundToFourDecimals_binary64 (binary64 (of_int k / 10000)) = binary64 (of_int k / 10000)"
proof (cases "k = 0")
  case True
  then show ?thesis
    by (simp add: binary64_def roundToFourDecimals_binary64_def rounded_def)
next
  case False
  define x :: real where "x = of_int k / 10000"
  define r where "r = nearest x"
  define z where "z = r * 10000"
  define y where "y = nearest z"
  from False have "1 \<le> \<bar>k\<bar>" by simp
  then have "real_of_int 1 \<le> real_of_int \<bar>k\<bar>" by (simp only: of_int_le_iff)
  then have k1: "1 \<le> \<bar>real_of_int k\<bar>" by simp
  from assms have "\<bar>k\<bar> \<le> 2 ^ 51 - 1" by simp
  then have "real_of_int \<bar>k\<bar> \<le> real_of_int (2 ^ 51 - 1)" by (simp only: of_int_le_iff)
  then have k2: "\<bar>real_of_int k\<bar> \<le> 2 ^ 51 - 1" by simp
  have x: "1 / 10 ^ 4 \<le> \<bar>x\<bar>" "x \<noteq> 0"
    using k1 False by (simp_all add: x_def)
  have rx: "\<bar>r - x\<bar> \<le> \<bar>x\<bar> / 2 ^ 53"
    unfolding r_def using x(1) by (rule nearest_relative)
  have "z - of_int k = (r - x) * 10000"
    by (simp add: z_def x_def algebra_simps)
  then have "\<bar>z - of_int k\<bar> = \<bar>(r - x) * 10000\<bar>"
    by (simp only:)
  also have "\<dots> = \<bar>r - x\<bar> * 10000"
    by (simp only: abs_mult abs_numeral)
  also have "\<dots> \<le> \<bar>x\<bar> / 2 ^ 53 * 10000"
    using rx by simp
  also have "\<dots> = \<bar>real_of_int k\<bar> / 2 ^ 53"
    by (simp add: x_def)
  also have "\<dots> < 1 / 4"
    using k2 by simp
  finally have zk: "\<bar>z - of_int k\<bar> < 1 / 4" .
  with k1 k2 have z: "z \<noteq> 0" "\<bar>z\<bar> < 2 ^ 51" by linarith+
  have yz: "\<bar>y - z\<bar> \<le> 1 / 8"
    unfolding y_def using z by (rule nearest_absolute)
  have r_fin: "\<bar>r\<bar> < 2 ^ 1024"
  proof -
    have "\<bar>r\<bar> \<le> \<bar>x\<bar> + \<bar>x\<bar> / 2 ^ 53" using rx by linarith
    also have "\<dots> \<le> 2 * \<bar>x\<bar>" by simp
    also have "\<dots> \<le> 2 * 2 ^ 51" using k2 by (simp add: x_def)
    also have "\<dots> < 2 ^ 1024" by simp
    finally show ?thesis .
  qed
  have y_fin: "\<bar>y\<bar> < 2 ^ 1024"
  proof -
    have "\<bar>y\<bar> \<le> \<bar>z\<bar> + 1 / 8" using yz by linarith
    also have "\<dots> < 2 ^ 51 + 1" using z(2) by linarith
    also have "\<dots> < 2 ^ 1024" by simp
    finally show ?thesis .
  qed
  have bx: "binary64 x = Fin r"
    unfolding r_def using x(2) r_fin [unfolded r_def] by (rule binary64_Fin)
  have bz: "binary64 z = Fin y"
    unfolding y_def using z(1) y_fin [unfolded y_def] by (rule binary64_Fin)
  have "of_int k \<le> y + 1 / 2" "y + 1 / 2 < of_int k + 1"
    using zk yz by linarith+
  then have fl: "\<lfloor>y + 1 / 2\<rfloor> = k" by linarith
  have "roundToFourDecimals_binary64 (Fin r) = binary64 (of_int k / 10000)"
    by (simp add: roundToFourDecimals_binary64_def rounded_def bz fl flip: z_def)
  then show ?thesis
    by (simp add: bx flip: x_def)
qed


lemma binary64_reproduces:
  assumes "roundToFourDecimals_binary64 (Fin x) = Fin r" "\<bar>r\<bar> \<le> 10 ^ 11"
  shows "roundToFourDecimals_binary64 (Fin r) = Fin r"
proof -
  from assms(1) obtain p where p: "binary64 (x * 10000) = Fin p"
    by (cases "binary64 (x * 10000)")
      (simp_all add: roundToFourDecimals_binary64_def rounded_def)
  define k where "k = \<lfloor>p + 1 / 2\<rfloor>"
  from assms(1) have r: "binary64 (of_int k / 10000) = Fin r"
    by (simp add: roundToFourDecimals_binary64_def rounded_def p k_def)
  have "\<bar>k\<bar> < 2 ^ 51"
  proof (rule ccontr)
    assume "\<not> \<bar>k\<bar> < 2 ^ 51"
    then have "2 ^ 51 \<le> \<bar>k\<bar>" by simp
    then have "real_of_int (2 ^ 51) \<le> real_of_int \<bar>k\<bar>" by (simp only: of_int_le_iff)
    then have k: "2 ^ 51 \<le> \<bar>real_of_int k\<bar>" by simp
    define x' :: real where "x' = of_int k / 10000"
    have x': "2 ^ 51 / 10000 \<le> \<bar>x'\<bar>" using k by (simp add: x'_def)
    then have "1 / 10 ^ 4 \<le> \<bar>x'\<bar>" "x' \<noteq> 0" by auto
    with r have "r = nearest x'" and "\<bar>nearest x' - x'\<bar> \<le> \<bar>x'\<bar> / 2 ^ 53"
      using binary64_FinD [of x' r] nearest_relative [of x'] by (simp_all add: x'_def)
    then have "\<bar>x'\<bar> - \<bar>x'\<bar> / 2 ^ 53 \<le> \<bar>r\<bar>" by linarith
    with x' assms(2) show False by simp
  qed
  then have "roundToFourDecimals_binary64 (binary64 (of_int k / 10000)) = binary64 (of_int k / 10000)"
    by (rule binary64_of_multiple)
  then show ?thesis by (simp only: r)
qed

lemma binary64_exact:
  fixes e m :: int
  assumes "2 powr of_int e \<le> \<bar>x\<bar>" "\<bar>x\<bar> < 2 powr (of_int e + 1)"
    and "- 1022 \<le> e" "e \<le> 1023"
    and "x = of_int m * 2 powr (of_int e - 52)"
  shows "binary64 x = Fin x"
proof -
  have "(0::real) < 2 powr of_int e" by simp
  with assms(1) have pos: "0 < \<bar>x\<bar>" by linarith
  then have "\<lfloor>log 2 \<bar>x\<bar>\<rfloor> = e"
    using assms(1,2) by (simp add: floor_log_eq_powr_iff)
  then have u: "binary64_ulp x = 2 powr (of_int e - 52)"
    using assms(3) by (simp add: binary64_ulp_def)
  have "x / 2 powr (of_int e - 52) = of_int m"
    using assms(5) by simp
  then have rhe: "round_half_even (x / binary64_ulp x) = m"
    by (simp add: u round_half_even_def)
  have "nearest x = of_int m * binary64_ulp x"
    by (simp only: nearest_def rhe)
  also have "\<dots> = of_int m * 2 powr (of_int e - 52)"
    by (simp only: u)
  also have "\<dots> = x"
    by (rule assms(5) [symmetric])
  finally have n: "nearest x = x" .
  have "2 powr (of_int e + 1) \<le> 2 powr (1024 :: real)"
    using assms(4) by (intro powr_mono) simp_all
  with assms(2) have "\<bar>x\<bar> < 2 ^ 1024" by simp
  with pos show ?thesis
    by (auto simp add: binary64_def n)
qed

lemma binary64_examples: "binary64 5000 = Fin 5000" "binary64 (1 / 2) = Fin (1 / 2)"
proof -
  show "binary64 5000 = Fin 5000"
    by (rule binary64_exact [where e = 12 and m = "5000 * 2 ^ 40"])
      (simp_all add: powr_neg_numeral)
  show "binary64 (1 / 2) = Fin (1 / 2)"
    by (rule binary64_exact [where e = "- 1" and m = "2 ^ 52"])
      (simp_all add: powr_neg_numeral powr_minus_divide)
qed

lemma round64_half: "roundToFourDecimals_binary64 (Fin (1 / 2)) = Fin (1 / 2)"
  by (simp add: roundToFourDecimals_binary64_def rounded_def binary64_examples)


lemma binary64_eval:
  fixes e :: int
  assumes "2 powr of_int e \<le> \<bar>x\<bar>" "\<bar>x\<bar> < 2 powr (of_int e + 1)"
    and "- 1022 \<le> e" "e < 1023"
  shows "binary64 x =
    Fin (of_int (round_half_even (x / 2 powr (of_int e - 52))) * 2 powr (of_int e - 52))"
proof -
  have "(0::real) < 2 powr of_int e" by simp
  with assms(1) have pos: "0 < \<bar>x\<bar>" by linarith
  then have "\<lfloor>log 2 \<bar>x\<bar>\<rfloor> = e"
    using assms(1,2) by (simp add: floor_log_eq_powr_iff)
  then have u: "binary64_ulp x = 2 powr (of_int e - 52)"
    using assms(3) by (simp add: binary64_ulp_def)
  have "2 powr (of_int e + 1) \<le> 2 powr (1023 :: real)"
    using assms(4) by (intro powr_mono) simp_all
  with assms(2) have x: "\<bar>x\<bar> < 2 ^ 1023" by simp
  have "2 powr (of_int e - 52) \<le> 2 powr (1023 :: real)"
    using assms(4) by (intro powr_mono) simp_all
  then have "binary64_ulp x / 2 \<le> 2 ^ 1023" by (simp add: u)
  with nearest_error [of x] x have "\<bar>nearest x\<bar> < 2 ^ 1023 + 2 ^ 1023" by linarith
  then have "\<bar>nearest x\<bar> < 2 ^ 1024" by simp
  with pos have "binary64 x = Fin (nearest x)"
    by (intro binary64_Fin) auto
  then show ?thesis by (simp only: nearest_def u)
qed

lemma binary64_0 [simp]: "binary64 0 = Fin 0"
  by (simp add: binary64_def)

lemma binary64_1: "binary64 1 = Fin 1"
  by (rule binary64_exact [where e = 0 and m = "2 ^ 52"])
    (simp_all add: powr_neg_numeral powr_minus_divide)

lemma binary64_10000: "binary64 10000 = Fin 10000"
  by (rule binary64_exact [where e = 13 and m = "10000 * 2 ^ 39"])
    (simp_all add: powr_neg_numeral)

lemma round64_0_1:
  "roundToFourDecimals_binary64 (Fin 0) = Fin 0"
  "roundToFourDecimals_binary64 (Fin 1) = Fin 1"
  by (simp_all add: roundToFourDecimals_binary64_def rounded_def binary64_1 binary64_10000)

lemma round64_special:
  "roundToFourDecimals_binary64 NaN = NaN"
  "roundToFourDecimals_binary64 PInf = PInf"
  "roundToFourDecimals_binary64 NInf = NInf"
  by (simp_all add: roundToFourDecimals_binary64_def rounded_def)

lemma round64_FinD:
  assumes "roundToFourDecimals_binary64 v = Fin y"
  shows "\<exists>x. v = Fin x"
  using assms by (cases v) (simp_all add: round64_special)

lemma round64_stored:
  assumes "roundToFourDecimals_binary64 v = Fin y" "\<bar>y\<bar> \<le> 10 ^ 11"
  shows "roundToFourDecimals_binary64 (Fin y) = Fin y"
proof -
  from round64_FinD [OF assms(1)] obtain x where "v = Fin x" by blast
  with assms show ?thesis using binary64_reproduces [of x y] by simp
qed

lemma round64_unit:
  assumes "0 \<le> v" "v \<le> 1"
  shows "\<exists>w. roundToFourDecimals_binary64 (Fin v) = Fin w \<and> 0 \<le> w \<and> w \<le> 1"
proof (cases "v = 0")
  case True
  then show ?thesis by (simp add: round64_0_1)
next
  case False
  define x where "x = v * 10000"
  define p where "p = nearest x"
  define k where "k = \<lfloor>p + 1 / 2\<rfloor>"
  from False assms have x: "x \<noteq> 0" "0 < x" "x \<le> 10000" by (simp_all add: x_def)
  then have "\<bar>x\<bar> < 2 ^ 51" by simp
  with x(1) have px: "\<bar>p - x\<bar> \<le> 1 / 8"
    unfolding p_def by (rule nearest_absolute)
  with x have p: "- (1 / 8) \<le> p" "p \<le> 10000 + 1 / 8" by linarith+
  then have "\<bar>p\<bar> < 2 ^ 1024" by simp
  with x(1) have bx: "binary64 x = Fin p"
    unfolding p_def by (intro binary64_Fin)
  from p have k: "0 \<le> k" "k \<le> 10000"
    unfolding k_def by linarith+
  have r: "roundToFourDecimals_binary64 (Fin v) = binary64 (of_int k / 10000)"
    by (simp add: roundToFourDecimals_binary64_def rounded_def bx k_def flip: x_def)
  consider "k = 0" | "k = 10000" | "1 \<le> k" "k \<le> 9999"
    using k by linarith
  then show ?thesis
  proof cases
    case 1
    then show ?thesis by (simp add: r)
  next
    case 2
    then show ?thesis by (simp add: r binary64_1)
  next
    case 3
    define y :: real where "y = of_int k / 10000"
    from 3 have "real_of_int 1 \<le> real_of_int k" "real_of_int k \<le> real_of_int 9999"
      by (simp_all only: of_int_le_iff)
    then have y: "1 / 10 ^ 4 \<le> y" "y \<le> 9999 / 10000"
      by (simp_all add: y_def)
    then have y0: "0 < y" "\<bar>y\<bar> = y" by simp_all
    from y have "1 / 10 ^ 4 \<le> \<bar>y\<bar>" by simp
    then have "\<bar>nearest y - y\<bar> \<le> \<bar>y\<bar> / 2 ^ 53" by (rule nearest_relative)
    then have ny: "\<bar>nearest y - y\<bar> \<le> y / 2 ^ 53" by (simp only: y0)
    define d where "d = y / 2 ^ 53"
    have "d \<le> y / 1" unfolding d_def using y0(1) by (intro divide_left_mono) simp_all
    then have d: "d \<le> y" by simp
    have d0: "0 \<le> d" unfolding d_def using y0(1) by simp
    have d1: "d \<le> 1 / 10000"
      using y(2) by (simp add: d_def)
    from ny have "\<bar>nearest y - y\<bar> \<le> d" by (simp only: d_def)
    with d d0 d1 y have n: "0 \<le> nearest y" "nearest y \<le> 1" by linarith+
    then have "\<bar>nearest y\<bar> < 2 ^ 1024" by simp
    with y0 have "binary64 y = Fin (nearest y)"
      by (intro binary64_Fin) simp_all
    with n show ?thesis by (simp add: r y_def)
  qed
qed

text \<open>The doubles of the literals in \<open>sRGBToLinear\<close>, and its value at 0 and at 1.\<close>

lemma binary64_literals:
  "binary64 0.04045 = Fin (5829459357668370 / 2 ^ 57)"
  "binary64 12.92 = Fin (7273313398203351 / 2 ^ 49)"
  "binary64 0.055 = Fin (7926335344172073 / 2 ^ 57)"
  "binary64 1.055 = Fin (4751297606875873 / 2 ^ 52)"
  "binary64 (1 + 7926335344172073 / 2 ^ 57) = Fin (4751297606875873 / 2 ^ 52)"
  "binary64 2.4 = Fin (5404319552844595 / 2 ^ 51)"
proof -
  show "binary64 2.4 = Fin (5404319552844595 / 2 ^ 51)"
    by (subst binary64_eval [where e = 1])
      (simp_all add: powr_neg_numeral powr_minus_divide round_half_even_def)
  show "binary64 0.04045 = Fin (5829459357668370 / 2 ^ 57)"
    by (subst binary64_eval [where e = "- 5"])
      (simp_all add: powr_neg_numeral powr_minus_divide round_half_even_def)
  show "binary64 12.92 = Fin (7273313398203351 / 2 ^ 49)"
    by (subst binary64_eval [where e = 3])
      (simp_all add: powr_neg_numeral powr_minus_divide round_half_even_def)
  show "binary64 0.055 = Fin (7926335344172073 / 2 ^ 57)"
    by (subst binary64_eval [where e = "- 5"])
      (simp_all add: powr_neg_numeral powr_minus_divide round_half_even_def)
  show "binary64 1.055 = Fin (4751297606875873 / 2 ^ 52)"
    by (subst binary64_eval [where e = 0])
      (simp_all add: powr_neg_numeral powr_minus_divide round_half_even_def)
  show "binary64 (1 + 7926335344172073 / 2 ^ 57) = Fin (4751297606875873 / 2 ^ 52)"
    by (subst binary64_eval [where e = 0])
      (simp_all add: powr_neg_numeral powr_minus_divide round_half_even_def)
qed

lemma sRGBToLinear_binary64_0_1:
  "sRGBToLinear_binary64 pow (Fin 0) = Fin 0"
  "sRGBToLinear_binary64 sample_pow (Fin 1) = Fin 1"
proof -
  show "sRGBToLinear_binary64 pow (Fin 0) = Fin 0"
    using binary64_literals(1,2) by (simp add: sRGBToLinear_binary64_def rounded_def)
  have "rounded (js_add (Fin 1) (binary64 0.055)) = Fin (4751297606875873 / 2 ^ 52)"
    using binary64_literals(3,5) by (simp add: rounded_def)
  moreover have "rounded (js_div (Fin (4751297606875873 / 2 ^ 52)) (binary64 1.055)) = Fin 1"
    using binary64_literals(4) by (simp add: rounded_def binary64_1)
  moreover have "\<not> js_le (Fin 1) (binary64 0.04045)"
    using binary64_literals(1) by simp
  moreover have "sample_pow (Fin 1) (binary64 2.4) = Fin 1"
    using binary64_literals(6) by (simp add: sample_pow_def rounded_def binary64_1)
  ultimately show "sRGBToLinear_binary64 sample_pow (Fin 1) = Fin 1"
    by (simp add: sRGBToLinear_binary64_def)
qed

section \<open>Writes to the channels\<close>


lemma Color_new_binary64_numbers:
  "Color_new_binary64 pow nm (VNum r) (VNum g) (VNum b) (VNum a) isLinear =
     Inr \<lparr> name = nm,
           linearRed = roundToFourDecimals_binary64
             (if isLinear then r else sRGBToLinear_binary64 pow r),
           linearGreen = roundToFourDecimals_binary64
             (if isLinear then g else sRGBToLinear_binary64 pow g),
           linearBlue = roundToFourDecimals_binary64
             (if isLinear then b else sRGBToLinear_binary64 pow b),
           opacity = roundToFourDecimals_binary64 (clampOpacity a) \<rparr>"
  by (simp add: Color_new_binary64_def validateComponent_def)




text \<open>
  Beyond that range the stored channel need not be a fixed point of the rounding, and next
  to a tie the binary64 product decides: the linear red 361760976705.17377 is stored as
  361760976705.1738, which rounds to 361760976705.1739; the double below 0.12345 times
  10000 is the double 1234.5, so that it is stored as 0.1235.
\<close>

lemma binary64_not_reproduced:
  "roundToFourDecimals_binary64 (Fin (5927091842337567 / 16384)) = Fin (5927091842337568 / 16384)"
  "roundToFourDecimals_binary64 (Fin (5927091842337568 / 16384)) = Fin (5927091842337569 / 16384)"
proof -
  have a: "binary64 (5927091842337567 / 16384 * 10000) = Fin (7235219534103475 / 2)"
    by (subst binary64_eval [where e = 51])
      (simp_all add: powr_neg_numeral round_half_even_def)
  have b: "binary64 (3617609767051738 / 10000) = Fin (5927091842337568 / 16384)"
    by (subst binary64_eval [where e = 38])
      (simp_all add: powr_neg_numeral round_half_even_def)
  show "roundToFourDecimals_binary64 (Fin (5927091842337567 / 16384)) = Fin (5927091842337568 / 16384)"
    using a b by (simp add: roundToFourDecimals_binary64_def rounded_def Let_def)
  have c: "binary64 (5927091842337568 / 16384 * 10000) = Fin (7235219534103477 / 2)"
    by (subst binary64_eval [where e = 51])
      (simp_all add: powr_neg_numeral round_half_even_def)
  have d: "binary64 (3617609767051739 / 10000) = Fin (5927091842337569 / 16384)"
    by (subst binary64_eval [where e = 38])
      (simp_all add: powr_neg_numeral round_half_even_def)
  show "roundToFourDecimals_binary64 (Fin (5927091842337568 / 16384)) = Fin (5927091842337569 / 16384)"
    using c d by (simp add: roundToFourDecimals_binary64_def rounded_def Let_def)
qed


lemma binary64_near_tie:
  "roundToFourDecimals_binary64 (Fin (8895509983982203 / 2 ^ 56)) = Fin (2224778215921025 / 2 ^ 54)"
  "roundToFourDecimals_binary64 (Fin (2223877495995551 / 2 ^ 54)) = Fin (2224778215921025 / 2 ^ 54)"
proof -
  have a: "binary64 (8895509983982203 / 2 ^ 56 * 10000) = Fin (2469 / 2)"
    by (subst binary64_eval [where e = 10])
      (simp_all add: powr_neg_numeral round_half_even_def)
  have b: "binary64 (1235 / 10000) = Fin (2224778215921025 / 2 ^ 54)"
    by (subst binary64_eval [where e = "- 4"])
      (simp_all add: powr_neg_numeral powr_minus_divide round_half_even_def)
  show "roundToFourDecimals_binary64 (Fin (8895509983982203 / 2 ^ 56)) = Fin (2224778215921025 / 2 ^ 54)"
    using a b by (simp add: roundToFourDecimals_binary64_def rounded_def Let_def)
  have c: "binary64 (2223877495995551 / 2 ^ 54 * 10000) = Fin (2469 / 2)"
    by (subst binary64_eval [where e = 10])
      (simp_all add: powr_neg_numeral round_half_even_def)
  show "roundToFourDecimals_binary64 (Fin (2223877495995551 / 2 ^ 54)) = Fin (2224778215921025 / 2 ^ 54)"
    using c b by (simp add: roundToFourDecimals_binary64_def rounded_def Let_def)
qed

section \<open>The opacity setter\<close>

text \<open>
  C7, as the claim states it, fails for a value inside the interval: the setter stores
  0.12345 as it is, not rounded to 0.1235.
\<close>

theorem opacity_setter_not_rounded:
  "Color_set_opacity black (VNum (Fin 0.12345)) = Inr (black\<lparr>opacity := Fin 0.12345\<rparr>)
   \<and> roundToFourDecimals (Fin 0.12345) = Fin 0.1235
   \<and> Fin 0.12345 \<noteq> Fin 0.1235"
  by (simp add: Color_set_opacity_def clampOpacity_Fin round4_Fin)

text \<open>
  C7, amended. Assigning a finite number \<open>v\<close> through the opacity setter stores 1 when
  \<open>v > 1\<close>, 0 when \<open>v < 0\<close>, and \<open>v\<close> itself, not rounded, when \<open>v\<close> is in [0,1];
  \<open>Infinity\<close> is stored as 1 and \<open>-Infinity\<close> as 0.
\<close>

theorem opacity_setter_clamps:
  "Color_set_opacity c (VNum (Fin v)) =
     Inr (c\<lparr>opacity := Fin (if 1 < v then 1 else if v < 0 then 0 else v)\<rparr>)
   \<and> Color_set_opacity c (VNum PInf) = Inr (c\<lparr>opacity := Fin 1\<rparr>)
   \<and> Color_set_opacity c (VNum NInf) = Inr (c\<lparr>opacity := Fin 0\<rparr>)"
  by (simp add: Color_set_opacity_def clampOpacity_Fin clampOpacity_non_finite non_finite_def)

section \<open>The serialized components\<close>

text \<open>
  C6. The array \<open>components\<close> that \<open>toJSON\<close> writes holds the three rounded linear
  channels, followed by the rounded opacity exactly when the stored opacity is not 1: it
  has four elements if and only if the stored opacity differs from 1, three otherwise.
\<close>

theorem toJSON_alpha:
  "toJSON_components c =
     [roundToFourDecimals (linearRed c), roundToFourDecimals (linearGreen c),
      roundToFourDecimals (linearBlue c)]
     @ (if opacity c = Fin 1 then [] else [roundToFourDecimals (opacity c)])
   \<and> (length (toJSON_components c) = 4) = (opacity c \<noteq> Fin 1)
   \<and> (length (toJSON_components c) = 3) = (opacity c = Fin 1)
   \<and> get_prop (Color_toJSON c) ''components'' = Inr (VArr (map VNum (toJSON_components c)))"
  by (simp add: toJSON_components_def strict_neq_one Color_toJSON_def Let_def)

section \<open>Numbers that are not finite\<close>

text \<open>
  C10, as the claim states it, fails for the opacity: an infinite opacity does not reach
  the stored state, the clamp turns it into 1.
\<close>

theorem infinite_opacity_clamped:
  "Color_new VUndefined (VNum (Fin 0)) (VNum (Fin 0)) (VNum (Fin 0)) (VNum PInf) False = Inr black
   \<and> opacity black = Fin 1
   \<and> Color_set_opacity black (VNum NInf) = Inr (black\<lparr>opacity := Fin 0\<rparr>)"
  by (simp add: Color_new_numbers sRGBToLinear_0_1 round4_Fin clampOpacity_non_finite
      non_finite_def black_def Color_set_opacity_def)

text \<open>
  C10, amended. A number that is not finite is accepted without an error by the
  constructor and by every setter, whatever the other arguments are. As red, green or
  blue it is stored as it is, by the constructor (linear or not) and by the setter, and
  \<open>toJSON\<close> writes a stored channel that is not finite into the components as it is. As
  opacity only \<open>NaN\<close> is stored: \<open>Infinity\<close> is stored as 1 and \<open>-Infinity\<close> as 0.
\<close>

theorem non_finite_accepted:
  assumes "non_finite x"
  shows "map_sum id linearRed (Color_new nm (VNum x) (VNum g) (VNum b) (VNum a) isLinear) = Inr x
       \<and> map_sum id linearGreen (Color_new nm (VNum r) (VNum x) (VNum b) (VNum a) isLinear) = Inr x
       \<and> map_sum id linearBlue (Color_new nm (VNum r) (VNum g) (VNum x) (VNum a) isLinear) = Inr x
       \<and> map_sum id opacity (Color_new nm (VNum r) (VNum g) (VNum b) (VNum x) isLinear) =
           Inr (case x of PInf \<Rightarrow> Fin 1 | NInf \<Rightarrow> Fin 0 | _ \<Rightarrow> NaN)
       \<and> Color_set_red c (VNum x) = Inr (c\<lparr>linearRed := x\<rparr>)
       \<and> Color_set_green c (VNum x) = Inr (c\<lparr>linearGreen := x\<rparr>)
       \<and> Color_set_blue c (VNum x) = Inr (c\<lparr>linearBlue := x\<rparr>)
       \<and> Color_set_opacity c (VNum x) =
           Inr (c\<lparr>opacity := (case x of PInf \<Rightarrow> Fin 1 | NInf \<Rightarrow> Fin 0 | _ \<Rightarrow> NaN)\<rparr>)
       \<and> toJSON_components (c\<lparr>linearRed := x\<rparr>) ! 0 = x
       \<and> toJSON_components (c\<lparr>linearGreen := x\<rparr>) ! 1 = x
       \<and> toJSON_components (c\<lparr>linearBlue := x\<rparr>) ! 2 = x
       \<and> toJSON_components (c\<lparr>opacity := NaN\<rparr>) ! 3 = NaN"
proof -
  have store: "roundToFourDecimals (if isLinear then x else sRGBToLinear x) = x"
    using assms by (simp add: sRGBToLinear_non_finite round4_non_finite)
  have clamp: "roundToFourDecimals (case x of PInf \<Rightarrow> Fin 1 | NInf \<Rightarrow> Fin 0 | _ \<Rightarrow> NaN) =
      (case x of PInf \<Rightarrow> Fin 1 | NInf \<Rightarrow> Fin 0 | _ \<Rightarrow> NaN)"
    by (cases x) (simp_all add: round4_special round4_0_1)
  have json: "roundToFourDecimals x = x"
    using assms by (rule round4_non_finite)
  show ?thesis
    using assms
    by (simp add: Color_new_numbers store clamp json sRGBToLinear_non_finite
        clampOpacity_non_finite Color_set_red_def Color_set_green_def Color_set_blue_def
        Color_set_opacity_def toJSON_components_def strict_neq_one round4_special Let_def)
qed

theorem non_finite_accepted_witness:
  "map_sum id linearRed
     (Color_new VUndefined (VNum NaN) (VNum (Fin 0)) (VNum (Fin 0)) (VNum (Fin 1)) False) = Inr NaN
   \<and> map_sum id opacity
     (Color_new VUndefined (VNum (Fin 0)) (VNum (Fin 0)) (VNum (Fin 0)) (VNum NaN) False) = Inr NaN
   \<and> Color_set_red black (VNum NaN) = Inr (black\<lparr>linearRed := NaN\<rparr>)
   \<and> Color_set_opacity black (VNum NaN) = Inr (black\<lparr>opacity := NaN\<rparr>)
   \<and> toJSON_components (black\<lparr>linearRed := NaN\<rparr>) ! 0 = NaN"
  using non_finite_accepted [of NaN VUndefined "Fin 0" "Fin 0" "Fin 1" False "Fin 0" black]
  by (simp add: non_finite_def)

section \<open>The transfer functions\<close>

lemma sRGBToLinear_Fin:
  "sRGBToLinear (Fin s) =
     Fin (if s \<le> 0.04045 then s / 12.92 else ((s + 0.055) / 1.055) powr (12 / 5))"
  by (simp add: sRGBToLinear_def)

lemma linearToSRGB_Fin:
  "linearToSRGB (Fin l) =
     Fin (if l \<le> 0.0031308 then l * 12.92 else l powr (5 / 12) * 1.055 - 0.055)"
  by (simp add: linearToSRGB_def js_sub_def)

lemma root12_5:
  fixes x c :: real
  assumes "0 < c" "0 < x"
  shows "c ^ 12 \<le> x ^ 5 \<Longrightarrow> c \<le> x powr (5 / 12)"
    and "x ^ 5 \<le> c ^ 12 \<Longrightarrow> x powr (5 / 12) \<le> c"
    and "x ^ 5 < c ^ 12 \<Longrightarrow> x powr (5 / 12) < c"
    and "c ^ 12 < x ^ 5 \<Longrightarrow> c < x powr (5 / 12)"
proof -
  have c: "(c ^ 12) powr (1 / 12) = c"
    using assms(1) by (simp add: powr_powr flip: powr_numeral)
  have x: "(x ^ 5) powr (1 / 12) = x powr (5 / 12)"
    using assms(2) by (simp add: powr_powr flip: powr_numeral)
  show "c ^ 12 \<le> x ^ 5 \<Longrightarrow> c \<le> x powr (5 / 12)"
    using powr_mono2 [of "1 / 12" "c ^ 12" "x ^ 5"] assms by (simp add: c x)
  show "x ^ 5 \<le> c ^ 12 \<Longrightarrow> x powr (5 / 12) \<le> c"
    using powr_mono2 [of "1 / 12" "x ^ 5" "c ^ 12"] assms by (simp add: c x)
  show "x ^ 5 < c ^ 12 \<Longrightarrow> x powr (5 / 12) < c"
    using powr_less_mono2 [of "1 / 12" "x ^ 5" "c ^ 12"] assms by (simp add: c x)
  show "c ^ 12 < x ^ 5 \<Longrightarrow> c < x powr (5 / 12)"
    using powr_less_mono2 [of "1 / 12" "c ^ 12" "x ^ 5"] assms by (simp add: c x)
qed

lemma pow5_12:
  fixes x c :: real
  assumes "0 < c" "0 < x"
  shows "c ^ 5 \<le> x ^ 12 \<Longrightarrow> c \<le> x powr (12 / 5)"
    and "x ^ 12 \<le> c ^ 5 \<Longrightarrow> x powr (12 / 5) \<le> c"
    and "c ^ 5 < x ^ 12 \<Longrightarrow> c < x powr (12 / 5)"
proof -
  have c: "(c ^ 5) powr (1 / 5) = c"
    using assms(1) by (simp add: powr_powr flip: powr_numeral)
  have x: "(x ^ 12) powr (1 / 5) = x powr (12 / 5)"
    using assms(2) by (simp add: powr_powr flip: powr_numeral)
  show "c ^ 5 \<le> x ^ 12 \<Longrightarrow> c \<le> x powr (12 / 5)"
    using powr_mono2 [of "1 / 5" "c ^ 5" "x ^ 12"] assms by (simp add: c x)
  show "x ^ 12 \<le> c ^ 5 \<Longrightarrow> x powr (12 / 5) \<le> c"
    using powr_mono2 [of "1 / 5" "x ^ 12" "c ^ 5"] assms by (simp add: c x)
  show "c ^ 5 < x ^ 12 \<Longrightarrow> c < x powr (12 / 5)"
    using powr_less_mono2 [of "1 / 5" "c ^ 5" "x ^ 12"] assms by (simp add: c x)
qed

lemma powr_inverse_pair:
  fixes x :: real
  assumes "0 < x"
  shows "(x powr (12 / 5)) powr (5 / 12) = x" "(x powr (5 / 12)) powr (12 / 5) = x"
  using assms by (simp_all add: powr_powr)


lemma knee_bounds:
  "(0.09047384 :: real) ^ 12 \<le> 0.0031308 ^ 5"
  "((0.04045 :: real) / 12.92) ^ 5 \<le> 0.09047395 ^ 12"
  "((0.04045 :: real) / 12.92) ^ 5 \<le> 0.09047391 ^ 12"
  "(0.0031308 :: real) ^ 5 \<le> (0.09545 / 1.055) ^ 12"
  "((0.09545 :: real) / 1.055) ^ 12 < 0.00313081 ^ 5"
  by (simp_all add: power_divide)

lemma root_between:
  fixes l :: real
  assumes "0.0031308 < l"
  shows "0.09047384 \<le> l powr (5 / 12)"
proof -
  have "(0.0031308 :: real) ^ 5 \<le> l ^ 5"
    using assms by (intro power_mono) simp_all
  with knee_bounds(1) have "(0.09047384 :: real) ^ 12 \<le> l ^ 5" by linarith
  then show ?thesis
    using assms by (intro root12_5(1)) simp_all
qed

lemma root_below:
  fixes l c :: real
  assumes "0 < l" "l \<le> 0.04045 / 12.92" "(0.04045 / 12.92) ^ 5 \<le> c ^ 12" "0 < c"
  shows "l powr (5 / 12) \<le> c"
proof -
  have "l ^ 5 \<le> (0.04045 / 12.92) ^ 5"
    using assms(1,2) by (intro power_mono) simp_all
  with assms(3) have "l ^ 5 \<le> c ^ 12" by linarith
  then show ?thesis
    using assms(1,4) by (intro root12_5(2)) simp_all
qed

lemma forward_low:
  assumes "s \<le> 0.040449936"
  shows "linearToSRGB (sRGBToLinear (Fin s)) = Fin s"
  using assms by (simp add: sRGBToLinear_Fin linearToSRGB_Fin)

lemma forward_high:
  assumes "0.04045 < s"
  shows "linearToSRGB (sRGBToLinear (Fin s)) = Fin s"
proof -
  define b where "b = (s + 0.055) / 1.055"
  have b: "0.09545 / 1.055 < b" "0 < b"
    using assms by (simp_all add: b_def)
  have "(0.09545 / 1.055 :: real) ^ 12 < b ^ 12"
    using b(1) by (intro power_strict_mono) simp_all
  with knee_bounds(4) have "(0.0031308 :: real) ^ 5 < b ^ 12" by linarith
  then have l: "0.0031308 < b powr (12 / 5)"
    using b(2) by (intro pow5_12(3)) simp_all
  have "sRGBToLinear (Fin s) = Fin (b powr (12 / 5))"
    using assms by (simp add: sRGBToLinear_Fin b_def)
  moreover have "linearToSRGB (Fin (b powr (12 / 5))) = Fin (b * 1.055 - 0.055)"
    using l b(2) by (simp add: linearToSRGB_Fin powr_inverse_pair del: powr_gt_zero)
  moreover have "b * 1.055 - 0.055 = s"
    by (simp add: b_def field_simps)
  ultimately show ?thesis by simp
qed

lemma forward_gap:
  assumes "0.040449936 < s" "s \<le> 0.04045"
  shows "\<exists>y. linearToSRGB (sRGBToLinear (Fin s)) = Fin y
           \<and> 0.09047384 * 1.055 - 0.055 \<le> y \<and> y \<le> 0.09047395 * 1.055 - 0.055"
proof -
  define l where "l = s / 12.92"
  have l: "0.0031308 < l" "l \<le> 0.04045 / 12.92" "0 < l"
    using assms by (simp_all add: l_def)
  have lo: "0.09047384 \<le> l powr (5 / 12)"
    using l(1) by (rule root_between)
  have hi: "l powr (5 / 12) \<le> 0.09047395"
    using l(3,2) knee_bounds(2) by (rule root_below) simp
  have "linearToSRGB (sRGBToLinear (Fin s)) = Fin (l powr (5 / 12) * 1.055 - 0.055)"
    using assms l(1) by (simp add: sRGBToLinear_Fin linearToSRGB_Fin l_def)
  moreover have "0.09047384 * 1.055 - 0.055 \<le> l powr (5 / 12) * 1.055 - 0.055"
    using lo by simp
  moreover have "l powr (5 / 12) * 1.055 - 0.055 \<le> 0.09047395 * 1.055 - 0.055"
    using hi by simp
  ultimately show ?thesis by blast
qed

lemma forward_close: "close_to (1 / 10 ^ 7) (linearToSRGB (sRGBToLinear (Fin s))) (Fin s)"
proof -
  consider "s \<le> 0.040449936" | "0.040449936 < s" "s \<le> 0.04045" | "0.04045 < s"
    by linarith
  then show ?thesis
  proof cases
    case 1
    then show ?thesis by (simp add: forward_low close_to_def)
  next
    case 2
    from forward_gap [OF 2] obtain y where
      y: "linearToSRGB (sRGBToLinear (Fin s)) = Fin y"
        "0.09047384 * 1.055 - 0.055 \<le> y" "y \<le> 0.09047395 * 1.055 - 0.055"
      by blast
    from y(2,3) 2 have "y - s \<le> 1 / 10 ^ 7" "s - y \<le> 1 / 10 ^ 7" by simp_all
    then have "\<bar>y - s\<bar> \<le> 1 / 10 ^ 7" by (simp only: abs_le_iff minus_diff_eq)
    with y(1) show ?thesis by (simp add: close_to_def)
  next
    case 3
    then show ?thesis by (simp add: forward_high close_to_def)
  qed
qed


lemma reverse_low:
  assumes "l \<le> 0.0031308"
  shows "sRGBToLinear (linearToSRGB (Fin l)) = Fin l"
  using assms by (simp add: sRGBToLinear_Fin linearToSRGB_Fin)

lemma reverse_power_branch:
  assumes "0.0031308 < l" "0.04045 < l powr (5 / 12) * 1.055 - 0.055"
  shows "sRGBToLinear (linearToSRGB (Fin l)) = Fin l"
proof -
  have "0 < l" using assms(1) by simp
  then have "(l powr (5 / 12)) powr (12 / 5) = l"
    by (rule powr_inverse_pair)
  moreover have "(l powr (5 / 12) * 1.055 - 0.055 + 0.055) / 1.055 = l powr (5 / 12)"
    by simp
  ultimately show ?thesis
    using assms by (simp add: sRGBToLinear_Fin linearToSRGB_Fin)
qed

lemma reverse_high:
  assumes "0.00313081 \<le> l"
  shows "sRGBToLinear (linearToSRGB (Fin l)) = Fin l"
proof -
  have l: "0 < l" "0.0031308 < l" using assms by simp_all
  have "(0.00313081 :: real) ^ 5 \<le> l ^ 5"
    using assms by (intro power_mono) simp_all
  with knee_bounds(5) have "(0.09545 / 1.055 :: real) ^ 12 < l ^ 5" by linarith
  then have "0.09545 / 1.055 < l powr (5 / 12)"
    using l(1) by (intro root12_5(4)) simp_all
  then have "0.04045 < l powr (5 / 12) * 1.055 - 0.055"
    by (simp add: field_simps)
  with l(2) show ?thesis by (rule reverse_power_branch)
qed

lemma reverse_gap:
  assumes "0.0031308 < l" "l < 0.00313081" "l powr (5 / 12) * 1.055 - 0.055 \<le> 0.04045"
  shows "\<exists>y. sRGBToLinear (linearToSRGB (Fin l)) = Fin y
           \<and> (0.09047384 * 1.055 - 0.055) / 12.92 \<le> y \<and> y \<le> 0.04045 / 12.92"
proof -
  have lo: "0.09047384 \<le> l powr (5 / 12)"
    using assms(1) by (rule root_between)
  have "sRGBToLinear (linearToSRGB (Fin l)) = Fin ((l powr (5 / 12) * 1.055 - 0.055) / 12.92)"
    using assms(1,3) by (simp add: sRGBToLinear_Fin linearToSRGB_Fin)
  moreover have "(0.09047384 * 1.055 - 0.055) / 12.92 \<le> (l powr (5 / 12) * 1.055 - 0.055) / 12.92"
    using lo by simp
  moreover have "(l powr (5 / 12) * 1.055 - 0.055) / 12.92 \<le> 0.04045 / 12.92"
    using assms(3) by simp
  ultimately show ?thesis by blast
qed

lemma reverse_close: "close_to (1 / 10 ^ 7) (sRGBToLinear (linearToSRGB (Fin l))) (Fin l)"
proof -
  consider "l \<le> 0.0031308" | "0.00313081 \<le> l"
    | "0.0031308 < l" "0.04045 < l powr (5 / 12) * 1.055 - 0.055"
    | "0.0031308 < l" "l < 0.00313081" "l powr (5 / 12) * 1.055 - 0.055 \<le> 0.04045"
    by linarith
  then show ?thesis
  proof cases
    case 1
    then show ?thesis by (simp add: reverse_low close_to_def)
  next
    case 2
    then show ?thesis by (simp add: reverse_high close_to_def)
  next
    case 3
    then show ?thesis by (simp add: reverse_power_branch close_to_def)
  next
    case 4
    from reverse_gap [OF 4] obtain y where
      y: "sRGBToLinear (linearToSRGB (Fin l)) = Fin y"
        "(0.09047384 * 1.055 - 0.055) / 12.92 \<le> y" "y \<le> 0.04045 / 12.92"
      by blast
    from y(2,3) 4(1,2) have "y - l \<le> 1 / 10 ^ 7" "l - y \<le> 1 / 10 ^ 7" by simp_all
    then have "\<bar>y - l\<bar> \<le> 1 / 10 ^ 7" by (simp only: abs_le_iff minus_diff_eq)
    with y(1) show ?thesis by (simp add: close_to_def)
  qed
qed

text \<open>
  C4, as the claim states it, fails at the knee of the curve: for \<open>s = 0.04045\<close> the linear
  piece of \<open>sRGBToLinear\<close> gives a value above 0.0031308, \<open>linearToSRGB\<close> answers with its
  power piece, and the result is more than \<open>1e-9\<close> below \<open>s\<close> (about \<open>3e-8\<close>).
\<close>

theorem forward_at_knee:
  "\<not> close_to (1 / 10 ^ 9) (linearToSRGB (sRGBToLinear (Fin 0.04045))) (Fin 0.04045)"
proof -
  define l :: real where "l = 0.04045 / 12.92"
  have l: "0 < l" "l \<le> 0.04045 / 12.92" "0.0031308 < l" by (simp_all add: l_def)
  have hi: "l powr (5 / 12) \<le> 0.09047391"
    using l(1,2) knee_bounds(3) by (rule root_below) simp
  have "linearToSRGB (sRGBToLinear (Fin 0.04045)) = Fin (l powr (5 / 12) * 1.055 - 0.055)"
    using l(3) by (simp add: sRGBToLinear_Fin linearToSRGB_Fin l_def)
  moreover have "l powr (5 / 12) * 1.055 - 0.055 < 0.04045 - 1 / 10 ^ 9"
    using hi by simp
  ultimately show ?thesis
    by (simp add: close_to_def)
qed

text \<open>
  The other composition is off by more than \<open>1e-9\<close> as well, just above 0.0031308, where
  \<open>linearToSRGB\<close> takes its power piece and \<open>sRGBToLinear\<close> its linear piece.
\<close>

lemma reverse_at_knee:
  "\<not> close_to (1 / 10 ^ 9) (sRGBToLinear (linearToSRGB (Fin 0.0031308001))) (Fin 0.0031308001)"
proof -
  define l :: real where "l = 0.0031308001"
  have l: "0 < l" "0.0031308 < l" by (simp_all add: l_def)
  have "l ^ 5 \<le> (0.09047385 :: real) ^ 12"
    by (simp add: l_def power_divide)
  then have hi: "l powr (5 / 12) \<le> 0.09047385"
    using l(1) by (intro root12_5(2)) simp_all
  then have s: "l powr (5 / 12) * 1.055 - 0.055 \<le> 0.04045" by simp
  define g where "g = (l powr (5 / 12) * 1.055 - 0.055) / 12.92"
  have eq: "sRGBToLinear (linearToSRGB (Fin l)) = Fin g"
    using l(2) s by (simp add: sRGBToLinear_Fin linearToSRGB_Fin g_def)
  have "g \<le> (0.09047385 * 1.055 - 0.055) / 12.92"
    unfolding g_def using hi by (intro divide_right_mono) simp_all
  also have "\<dots> < l - 1 / 10 ^ 9"
    by (simp add: l_def)
  finally have "\<not> \<bar>g - l\<bar> \<le> 1 / 10 ^ 9" by linarith
  then have "\<not> close_to (1 / 10 ^ 9) (sRGBToLinear (linearToSRGB (Fin l))) (Fin l)"
    unfolding eq close_to_def by simp
  then show ?thesis
    unfolding l_def .
qed

lemma close_to_exact: "0 \<le> tol \<Longrightarrow> x = Fin a \<Longrightarrow> close_to tol x (Fin a)"
  by (simp add: close_to_def)

text \<open>
  C4, amended. For every \<open>s\<close> in [0,1], \<open>linearToSRGB (sRGBToLinear s)\<close> equals \<open>s\<close> within
  \<open>1e-7\<close>, and within \<open>1e-9\<close> unless \<open>0.040449936 < s \<le> 0.04045\<close>. For every \<open>l\<close> in [0,1],
  \<open>sRGBToLinear (linearToSRGB l)\<close> equals \<open>l\<close> within \<open>1e-7\<close>, and within \<open>1e-9\<close> unless
  \<open>0.0031308 < l < 0.00313081\<close>.
\<close>

theorem transfer_inverse:
  "(0 \<le> s \<and> s \<le> 1 \<longrightarrow>
      close_to (1 / 10 ^ 7) (linearToSRGB (sRGBToLinear (Fin s))) (Fin s)
      \<and> (s \<le> 0.040449936 \<or> 0.04045 < s \<longrightarrow>
           close_to (1 / 10 ^ 9) (linearToSRGB (sRGBToLinear (Fin s))) (Fin s)))
   \<and> (0 \<le> l \<and> l \<le> 1 \<longrightarrow>
      close_to (1 / 10 ^ 7) (sRGBToLinear (linearToSRGB (Fin l))) (Fin l)
      \<and> (l \<le> 0.0031308 \<or> 0.00313081 \<le> l \<longrightarrow>
           close_to (1 / 10 ^ 9) (sRGBToLinear (linearToSRGB (Fin l))) (Fin l)))"
proof -
  have "close_to (1 / 10 ^ 9) (linearToSRGB (sRGBToLinear (Fin s))) (Fin s)"
    if "s \<le> 0.040449936 \<or> 0.04045 < s"
    using that forward_low [of s] forward_high [of s] by (auto intro: close_to_exact)
  moreover have "close_to (1 / 10 ^ 9) (sRGBToLinear (linearToSRGB (Fin l))) (Fin l)"
    if "l \<le> 0.0031308 \<or> 0.00313081 \<le> l"
    using that reverse_low [of l] reverse_high [of l] by (auto intro: close_to_exact)
  ultimately show ?thesis
    using forward_close [of s] reverse_close [of l] by blast
qed

theorem transfer_inverse_witness:
  "close_to (1 / 10 ^ 9) (linearToSRGB (sRGBToLinear (Fin 0.5))) (Fin 0.5)
   \<and> close_to (1 / 10 ^ 9) (sRGBToLinear (linearToSRGB (Fin 0.5))) (Fin 0.5)
   \<and> close_to (1 / 10 ^ 7) (linearToSRGB (sRGBToLinear (Fin 0.04045))) (Fin 0.04045)"
  using transfer_inverse [of "0.5" "0.5"] transfer_inverse [of "0.04045" "0.5"]
  by simp

section \<open>The round trip through \<open>serialize\<close> and \<open>deserialize\<close>\<close>

lemma clampOpacity_cases:
  "clampOpacity a = NaN \<or> (\<exists>v. clampOpacity a = Fin v \<and> 0 \<le> v \<and> v \<le> 1)"
  by (cases a) (simp_all add: clampOpacity_Fin clampOpacity_def Math_max_def Math_min_def)

lemma Color_new_binary64_InrD:
  assumes "Color_new_binary64 pow nm r g b a isLinear = Inr c"
  shows "\<exists>r' g' b' a'. c = \<lparr> name = nm,
           linearRed = roundToFourDecimals_binary64 r',
           linearGreen = roundToFourDecimals_binary64 g',
           linearBlue = roundToFourDecimals_binary64 b',
           opacity = roundToFourDecimals_binary64 (clampOpacity a') \<rparr>"
  using assms
  by (auto simp add: Color_new_binary64_def validateComponent_def then_do_def Let_def
      split: jsval.splits if_splits)

lemma built_stored:
  assumes built: "Color_new_binary64 pow nm r g b a isLinear = Inr c"
    and range: "serializable c"
  shows "roundToFourDecimals_binary64 (linearRed c) = linearRed c"
    and "roundToFourDecimals_binary64 (linearGreen c) = linearGreen c"
    and "roundToFourDecimals_binary64 (linearBlue c) = linearBlue c"
    and "roundToFourDecimals_binary64 (opacity c) = opacity c"
    and "\<exists>v. opacity c = Fin v \<and> 0 \<le> v \<and> v \<le> 1"
proof -
  from Color_new_binary64_InrD [OF built] obtain r' g' b' a' where
    c: "c = \<lparr> name = nm, linearRed = roundToFourDecimals_binary64 r',
           linearGreen = roundToFourDecimals_binary64 g',
           linearBlue = roundToFourDecimals_binary64 b',
           opacity = roundToFourDecimals_binary64 (clampOpacity a') \<rparr>"
    by blast
  from range obtain x where x: "linearRed c = Fin x" "\<bar>x\<bar> \<le> 10 ^ 11"
    by (auto simp add: serializable_def moderate_def split: jsnum.splits)
  from c x(1) have "roundToFourDecimals_binary64 r' = Fin x" by simp
  then have "roundToFourDecimals_binary64 (Fin x) = Fin x"
    using x(2) by (rule round64_stored)
  then show "roundToFourDecimals_binary64 (linearRed c) = linearRed c"
    by (simp only: x(1))
  from range obtain y where y: "linearGreen c = Fin y" "\<bar>y\<bar> \<le> 10 ^ 11"
    by (auto simp add: serializable_def moderate_def split: jsnum.splits)
  from c y(1) have "roundToFourDecimals_binary64 g' = Fin y" by simp
  then have "roundToFourDecimals_binary64 (Fin y) = Fin y"
    using y(2) by (rule round64_stored)
  then show "roundToFourDecimals_binary64 (linearGreen c) = linearGreen c"
    by (simp only: y(1))
  from range obtain z where z: "linearBlue c = Fin z" "\<bar>z\<bar> \<le> 10 ^ 11"
    by (auto simp add: serializable_def moderate_def split: jsnum.splits)
  from c z(1) have "roundToFourDecimals_binary64 b' = Fin z" by simp
  then have "roundToFourDecimals_binary64 (Fin z) = Fin z"
    using z(2) by (rule round64_stored)
  then show "roundToFourDecimals_binary64 (linearBlue c) = linearBlue c"
    by (simp only: z(1))
  from range have nn: "opacity c \<noteq> NaN" by (simp add: serializable_def)
  from clampOpacity_cases [of a']
  have op: "\<exists>v. opacity c = Fin v \<and> 0 \<le> v \<and> v \<le> 1"
  proof
    assume "clampOpacity a' = NaN"
    with nn show ?thesis by (simp add: c round64_special)
  next
    assume "\<exists>v. clampOpacity a' = Fin v \<and> 0 \<le> v \<and> v \<le> 1"
    then obtain v where "clampOpacity a' = Fin v" "0 \<le> v" "v \<le> 1" by blast
    with round64_unit [of v] show ?thesis by (simp add: c)
  qed
  then show "\<exists>v. opacity c = Fin v \<and> 0 \<le> v \<and> v \<le> 1" .
  from op obtain w where w: "opacity c = Fin w" "0 \<le> w" "w \<le> 1" by blast
  then have w': "\<bar>w\<bar> \<le> 10 ^ 11" by simp
  from c w(1) have "roundToFourDecimals_binary64 (clampOpacity a') = Fin w" by simp
  then have "roundToFourDecimals_binary64 (Fin w) = Fin w"
    using w' by (rule round64_stored)
  then show "roundToFourDecimals_binary64 (opacity c) = opacity c"
    by (simp only: w(1))
qed

lemma get_prop_Color_toJSON_binary64:
  "get_prop (Color_toJSON_binary64 c) ''components'' =
     Inr (VArr (map VNum (toJSON_components_binary64 c)))"
  "get_prop (Color_toJSON_binary64 c) ''name'' = Inr (kept_name (name c))"
  by (simp_all add: Color_toJSON_binary64_def kept_name_def Let_def)

lemma js_lt_nonneg: "nonneg_finite x \<Longrightarrow> \<not> js_lt x (Fin 0)"
  by (cases x) (simp_all add: nonneg_finite_def)

lemma entry_roundtrip:
  assumes built: "Color_new_binary64 pow nm r g b a isLinear = Inr c"
    and range: "serializable c"
  shows "validateColorComponent (Color_toJSON_binary64 c) = Inr ()"
    and "entry_to_Color_binary64 pow' (Color_toJSON_binary64 c) =
           Inr (c\<lparr>name := kept_name (name c)\<rparr>)"
proof -
  note st = built_stored(1-4) [OF built range]
  from range have gamut: "nonneg_finite (linearRed c)" "nonneg_finite (linearGreen c)"
    "nonneg_finite (linearBlue c)"
    by (simp_all add: serializable_def)
  from built_stored(5) [OF built range] obtain v where v: "opacity c = Fin v" "0 \<le> v" "v \<le> 1"
    by blast
  have clamp: "clampOpacity (opacity c) = opacity c"
    using v by (simp add: clampOpacity_Fin)
  have op_ok: "\<not> js_lt (opacity c) (Fin 0)" using v by simp
  show "validateColorComponent (Color_toJSON_binary64 c) = Inr ()"
    using gamut op_ok
    by (simp add: validateColorComponent_def get_prop_Color_toJSON_binary64
        toJSON_components_binary64_def strict_neq_one st js_lt_nonneg Let_def)
  show "entry_to_Color_binary64 pow' (Color_toJSON_binary64 c) =
      Inr (c\<lparr>name := kept_name (name c)\<rparr>)"
  proof (cases "opacity c = Fin 1")
    case True
    then show ?thesis
      by (simp add: entry_to_Color_binary64_def get_prop_Color_toJSON_binary64
          toJSON_components_binary64_def strict_neq_one st Color_new_binary64_numbers
          round64_0_1 clampOpacity_Fin Let_def)
  next
    case False
    then show ?thesis
      by (simp add: entry_to_Color_binary64_def get_prop_Color_toJSON_binary64
          toJSON_components_binary64_def strict_neq_one st Color_new_binary64_numbers
          clamp Let_def)
  qed
qed

lemma colors_roundtrip:
  assumes "\<forall>c \<in> set cs.
      (\<exists>nm r g b a isLinear. Color_new_binary64 pow nm r g b a isLinear = Inr c) \<and> serializable c"
  shows "validate_colors (map Color_toJSON_binary64 cs) = Inr ()"
    and "map_all (entry_to_Color_binary64 pow') (map Color_toJSON_binary64 cs) =
           Inr (map (\<lambda>c. c\<lparr>name := kept_name (name c)\<rparr>) cs)"
  using assms
proof (induction cs)
  case Nil
  {
    case 1
    show ?case by simp
  next
    case 2
    show ?case by simp
  }
next
  case (Cons c cs)
  {
    case 1
    then obtain nm r g b a isLinear
      where "Color_new_binary64 pow nm r g b a isLinear = Inr c" and "serializable c"
      by auto
    then have "validateColorComponent (Color_toJSON_binary64 c) = Inr ()"
      by (rule entry_roundtrip(1))
    with 1 Cons.IH(1) show ?case by simp
  next
    case 2
    then obtain nm r g b a isLinear
      where "Color_new_binary64 pow nm r g b a isLinear = Inr c" and "serializable c"
      by auto
    then have "entry_to_Color_binary64 pow' (Color_toJSON_binary64 c) =
        Inr (c\<lparr>name := kept_name (name c)\<rparr>)"
      by (rule entry_roundtrip(2))
    with 2 Cons.IH(2) show ?case by simp
  }
qed

lemma get_prop_ColorPalette_toJSON_binary64:
  "get_prop (ColorPalette_toJSON_binary64 P) ''colors'' =
     Inr (VArr (map Color_toJSON_binary64 (colors P)))"
  "get_prop (ColorPalette_toJSON_binary64 P) ''name'' = Inr (kept_name (palette_name P))"
  by (simp_all add: ColorPalette_toJSON_binary64_def kept_name_def)

text \<open>
  C1, as the claim states it, fails: a colour constructed from the non-linear red -1 stores
  the linear red -0.0774, \<open>serialize\<close> writes it, and \<open>deserialize\<close> rejects the document
  because a component is negative.
\<close>

theorem roundtrip_negative_channel:
  "Color_new VUndefined (VNum (Fin (- 1))) (VNum (Fin 0)) (VNum (Fin 0)) VUndefined False =
     Inr (black\<lparr>linearRed := Fin (- 0.0774)\<rparr>)
   \<and> deserialize Inr
        (serialize id \<lparr> palette_name = VUndefined, colors = [black\<lparr>linearRed := Fin (- 0.0774)\<rparr>] \<rparr>)
      = Inl (Error ''Component values must be numbers'')"
proof -
  have "sRGBToLinear (Fin (- 1)) = Fin (- 1 / 12.92)"
    by (simp add: sRGBToLinear_def)
  moreover have "roundToFourDecimals (Fin (- 1 / 12.92)) = Fin (- 0.0774)"
    by (simp add: round4_Fin)
  ultimately have a: "Color_new VUndefined (VNum (Fin (- 1))) (VNum (Fin 0)) (VNum (Fin 0)) VUndefined False =
     Inr (black\<lparr>linearRed := Fin (- 0.0774)\<rparr>)"
    by (simp add: Color_new_def validateComponent_def sRGBToLinear_0_1 round4_0_1
        clampOpacity_Fin black_def)
  have "roundToFourDecimals (Fin (- 0.0774)) = Fin (- 0.0774)"
    by (simp add: round4_Fin)
  then have b: "deserialize Inr
        (serialize id \<lparr> palette_name = VUndefined, colors = [black\<lparr>linearRed := Fin (- 0.0774)\<rparr>] \<rparr>)
      = Inl (Error ''Component values must be numbers'')"
    by (simp add: deserialize_def serialize_def ColorPalette_toJSON_def validatePalette_def
        validateColorComponent_def Color_toJSON_def toJSON_components_def strict_neq_one
        black_def round4_0_1 Let_def)
  from a b show ?thesis by simp
qed

text \<open>
  C1, amended, in binary64 and for whatever the engine's \<open>**\<close> returns. Let every colour
  of a palette be one the constructor returned, from non-linear or from linear input, with
  stored red, green and blue that are finite, not negative and at most \<open>1e11\<close>, and a
  stored opacity that is not \<open>NaN\<close>; and let the host's \<open>JSON.parse\<close> give back the document
  that \<open>JSON.stringify\<close> wrote. Then \<open>deserialize (serialize P)\<close> returns a palette with the
  same colours in the same order, each with the same linear channels and the same
  opacity; the name of the palette and of each colour is the same, except that a falsy
  name (the empty string) comes back as \<open>undefined\<close>.
\<close>

theorem serialize_roundtrip:
  fixes JSON_stringify :: "jsval \<Rightarrow> 't" and JSON_parse :: "'t \<Rightarrow> js_error + jsval"
  assumes host: "JSON_parse (JSON_stringify (ColorPalette_toJSON_binary64 P)) =
      Inr (ColorPalette_toJSON_binary64 P)"
    and built: "\<forall>c \<in> set (colors P).
      \<exists>nm r g b a isLinear. Color_new_binary64 pow nm r g b a isLinear = Inr c"
    and range: "\<forall>c \<in> set (colors P). serializable c"
  shows "deserialize_binary64 pow JSON_parse (serialize_binary64 JSON_stringify P) =
           Inr \<lparr> palette_name = kept_name (palette_name P),
                 colors = map (\<lambda>c. c\<lparr>name := kept_name (name c)\<rparr>) (colors P) \<rparr>"
proof -
  from built range
  have all: "\<forall>c \<in> set (colors P).
      (\<exists>nm r g b a isLinear. Color_new_binary64 pow nm r g b a isLinear = Inr c) \<and> serializable c"
    by blast
  show ?thesis
    using host colors_roundtrip [OF all]
    by (simp add: deserialize_binary64_def serialize_binary64_def validatePalette_def
        get_prop_ColorPalette_toJSON_binary64 ColorPalette_new_def)
qed

theorem serialize_roundtrip_witness:
  "Color_new_binary64 sample_pow (VStr ''Red'') (VNum (Fin 1)) (VNum (Fin 0)) (VNum (Fin 0))
     VUndefined False = Inr test_red
   \<and> Color_new_binary64 sample_pow (VStr ''Green'') (VNum (Fin 0)) (VNum (Fin 1)) (VNum (Fin 0))
       (VNum (Fin 0.5)) False = Inr test_green
   \<and> deserialize_binary64 sample_pow Inr (serialize_binary64 id test_palette) = Inr test_palette"
proof -
  have r: "Color_new_binary64 sample_pow (VStr ''Red'') (VNum (Fin 1)) (VNum (Fin 0))
      (VNum (Fin 0)) VUndefined False = Inr test_red"
    by (simp add: Color_new_binary64_def validateComponent_def sRGBToLinear_binary64_0_1
        round64_0_1 clampOpacity_Fin test_red_def)
  have g: "Color_new_binary64 sample_pow (VStr ''Green'') (VNum (Fin 0)) (VNum (Fin 1))
      (VNum (Fin 0)) (VNum (Fin 0.5)) False = Inr test_green"
    using round64_half
    by (simp add: Color_new_binary64_numbers sRGBToLinear_binary64_0_1 round64_0_1
        clampOpacity_Fin test_green_def)
  have built: "\<forall>c \<in> set (colors test_palette).
      \<exists>nm r g b a isLinear. Color_new_binary64 sample_pow nm r g b a isLinear = Inr c"
  proof -
    from r have "\<exists>nm r g b a isLinear.
        Color_new_binary64 sample_pow nm r g b a isLinear = Inr test_red" by blast
    moreover from g have "\<exists>nm r g b a isLinear.
        Color_new_binary64 sample_pow nm r g b a isLinear = Inr test_green" by blast
    ultimately show ?thesis by (simp add: test_palette_def)
  qed
  have range: "\<forall>c \<in> set (colors test_palette). serializable c"
    by (simp add: test_palette_def test_red_def test_green_def serializable_def
        nonneg_finite_def moderate_def)
  have names: "kept_name (palette_name test_palette) = palette_name test_palette"
    "map (\<lambda>c. c\<lparr>name := kept_name (name c)\<rparr>) (colors test_palette) = colors test_palette"
    by (simp_all add: test_palette_def test_red_def test_green_def kept_name_def)
  have "deserialize_binary64 sample_pow Inr (serialize_binary64 id test_palette) =
      Inr \<lparr> palette_name = kept_name (palette_name test_palette),
            colors = map (\<lambda>c. c\<lparr>name := kept_name (name c)\<rparr>) (colors test_palette) \<rparr>"
    by (rule serialize_roundtrip [OF _ built range]) simp
  with r g show ?thesis by (simp add: names)
qed

section \<open>Validation in \<open>deserialize\<close>\<close>

lemma validate_colors_append:
  "validate_colors good = Inr () \<Longrightarrow> validate_colors (good @ xs) = validate_colors xs"
  by (induction good) (auto simp: then_do_def split: sum.splits)

lemma validate_values_negative:
  "VNum (Fin v) \<in> set cs \<Longrightarrow> v < 0 \<Longrightarrow>
     validate_values cs = Inl (Error ''Component values must be numbers'')"
  by (induction cs rule: validate_values.induct) auto

lemma deserialize_invalid_entry:
  assumes "JSON_parse d = Inr (VObj kvs)"
    and "map_of kvs ''colors'' = Some (VArr (good @ entry # rest))"
    and "validate_colors good = Inr ()"
    and "validateColorComponent entry = Inl e"
  shows "deserialize JSON_parse d = Inl e"
  using assms by (simp add: deserialize_def validatePalette_def validate_colors_append)

text \<open>
  C5. \<open>deserialize\<close> fails as the validation table says. An error of \<open>JSON.parse\<close> (on
  \<open>/\<close>, the host's message that the text is not valid JSON) leaves \<open>deserialize\<close>
  unchanged. On \<open>{}\<close> the error is \<open>Colors must be an array\<close>. When validation reaches
  an entry of \<open>colors\<close> (all entries before it are valid), the error is
  \<open>Components must be an array\<close> if its \<open>components\<close> are not an array,
  \<open>Components must have 3 or 4 values\<close> if they are an array of length 2, and
  \<open>Component values must be numbers\<close> if they are three or four values with a negative
  number such as -1 among them.
\<close>

theorem deserialize_validation:
  fixes JSON_parse :: "string \<Rightarrow> js_error + jsval"
  shows
    "(JSON_parse ''/'' = Inl e \<longrightarrow> deserialize JSON_parse ''/'' = Inl e)
   \<and> (JSON_parse ''{}'' = Inr (VObj []) \<longrightarrow>
        deserialize JSON_parse ''{}'' = Inl (TypeError ''Colors must be an array''))
   \<and> (JSON_parse d = Inr (VObj kvs)
        \<and> map_of kvs ''colors'' = Some (VArr (good @ entry # rest))
        \<and> validate_colors good = Inr ()
        \<and> get_prop entry ''components'' = Inr components \<longrightarrow>
          (\<not> Array_isArray components \<longrightarrow>
             deserialize JSON_parse d = Inl (TypeError ''Components must be an array''))
        \<and> (components = VArr cs \<and> length cs = 2 \<longrightarrow>
             deserialize JSON_parse d = Inl (Error ''Components must have 3 or 4 values''))
        \<and> (components = VArr cs \<and> (length cs = 3 \<or> length cs = 4)
               \<and> VNum (Fin v) \<in> set cs \<and> v < 0 \<longrightarrow>
             deserialize JSON_parse d = Inl (Error ''Component values must be numbers'')))"
proof (intro conjI impI)
  assume "JSON_parse ''/'' = Inl e"
  then show "deserialize JSON_parse ''/'' = Inl e"
    by (simp add: deserialize_def)
next
  assume "JSON_parse ''{}'' = Inr (VObj [])"
  then show "deserialize JSON_parse ''{}'' = Inl (TypeError ''Colors must be an array'')"
    by (simp add: deserialize_def validatePalette_def)
next
  assume a: "JSON_parse d = Inr (VObj kvs)
        \<and> map_of kvs ''colors'' = Some (VArr (good @ entry # rest))
        \<and> validate_colors good = Inr ()
        \<and> get_prop entry ''components'' = Inr components"
    and "\<not> Array_isArray components"
  then have "validateColorComponent entry = Inl (TypeError ''Components must be an array'')"
    by (cases components) (simp_all add: validateColorComponent_def Array_isArray_def)
  with a show "deserialize JSON_parse d = Inl (TypeError ''Components must be an array'')"
    by (blast intro: deserialize_invalid_entry)
next
  assume a: "JSON_parse d = Inr (VObj kvs)
        \<and> map_of kvs ''colors'' = Some (VArr (good @ entry # rest))
        \<and> validate_colors good = Inr ()
        \<and> get_prop entry ''components'' = Inr components"
    and "components = VArr cs \<and> length cs = 2"
  then have "validateColorComponent entry = Inl (Error ''Components must have 3 or 4 values'')"
    by (simp add: validateColorComponent_def)
  with a show "deserialize JSON_parse d = Inl (Error ''Components must have 3 or 4 values'')"
    by (blast intro: deserialize_invalid_entry)
next
  assume a: "JSON_parse d = Inr (VObj kvs)
        \<and> map_of kvs ''colors'' = Some (VArr (good @ entry # rest))
        \<and> validate_colors good = Inr ()
        \<and> get_prop entry ''components'' = Inr components"
    and b: "components = VArr cs \<and> (length cs = 3 \<or> length cs = 4)
               \<and> VNum (Fin v) \<in> set cs \<and> v < 0"
  then have "validateColorComponent entry = Inl (Error ''Component values must be numbers'')"
    by (auto simp add: validateColorComponent_def validate_values_negative)
  with a show "deserialize JSON_parse d = Inl (Error ''Component values must be numbers'')"
    by (blast intro: deserialize_invalid_entry)
qed


theorem deserialize_validation_witness:
  \<open>deserialize sample_parse ''/'' =
     Inl (SyntaxError ''Unexpected token '/', "/" is not valid JSON'')
   \<and> deserialize sample_parse ''{}'' = Inl (TypeError ''Colors must be an array'')
   \<and> deserialize sample_parse ''{"colors":[{"components":"invalid"}]}'' =
       Inl (TypeError ''Components must be an array'')
   \<and> deserialize sample_parse ''{"colors":[{"components":[1,2]}]}'' =
       Inl (Error ''Components must have 3 or 4 values'')
   \<and> deserialize sample_parse ''{"colors":[{"components":[-1,0,0]}]}'' =
       Inl (Error ''Component values must be numbers'')\<close>
  using
    deserialize_validation [of sample_parse
      \<open>SyntaxError ''Unexpected token '/', "/" is not valid JSON''\<close>
      \<open>''{"colors":[{"components":"invalid"}]}''\<close>
      "[(''colors'', VArr [VObj [(''components'', VStr ''invalid'')]])]"
      "[]" "VObj [(''components'', VStr ''invalid'')]" "[]" "VStr ''invalid''" "[]" 0]
    deserialize_validation [of sample_parse
      \<open>SyntaxError ''Unexpected token '/', "/" is not valid JSON''\<close>
      \<open>''{"colors":[{"components":[1,2]}]}''\<close>
      "[(''colors'', VArr [VObj [(''components'', VArr [VNum (Fin 1), VNum (Fin 2)])]])]"
      "[]" "VObj [(''components'', VArr [VNum (Fin 1), VNum (Fin 2)])]" "[]"
      "VArr [VNum (Fin 1), VNum (Fin 2)]" "[VNum (Fin 1), VNum (Fin 2)]" 0]
    deserialize_validation [of sample_parse
      \<open>SyntaxError ''Unexpected token '/', "/" is not valid JSON''\<close>
      \<open>''{"colors":[{"components":[-1,0,0]}]}''\<close>
      "[(''colors'', VArr [VObj [(''components'', VArr [VNum (Fin (- 1)), VNum (Fin 0), VNum (Fin 0)])]])]"
      "[]" "VObj [(''components'', VArr [VNum (Fin (- 1)), VNum (Fin 0), VNum (Fin 0)])]" "[]"
      "VArr [VNum (Fin (- 1)), VNum (Fin 0), VNum (Fin 0)]"
      "[VNum (Fin (- 1)), VNum (Fin 0), VNum (Fin 0)]" "- 1"]
  by (simp add: sample_parse_def Array_isArray_def)

section \<open>Hexadecimal numbers\<close>

text \<open>
  C9. \<open>fromHexNumber\<close> throws the error \<open>Invalid hex value\<close> exactly when its argument
  is not an integer from 0 to \<open>0xFFFFFFFF\<close> (negative, not an integer, or too large), and
  returns a colour otherwise. An integer in the range is read by its magnitude: up to
  \<open>0xFFF\<close> as three digits of four bits, up to \<open>0xFFFF\<close> as four digits of four bits, up
  to \<open>0xFFFFFF\<close> as three bytes, and above as four bytes.
\<close>

theorem fromHexNumber_dispatch:
  "(fromHexNumber hex = Inl (Error ''Invalid hex value'')) = (\<not> valid_hex_number hex)
   \<and> (\<exists>c. fromHexNumber hex = Inr c) = valid_hex_number hex
   \<and> (0 \<le> n \<and> n \<le> 0xFFFFFFFF \<longrightarrow>
        fromHexNumber (VNum (Fin (of_int n))) =
          (if n \<le> 0xFFF then decode_rgb4 n
           else if n \<le> 0xFFFF then decode_rgba4 n
           else if n \<le> 0xFFFFFF then decode_rgb8 n
           else decode_rgba8 n))"
proof (cases "valid_hex_number hex")
  case True
  then show ?thesis
    using fromHexNumber_in_range [of hex] by (auto simp add: fromHexNumber_int)
next
  case False
  then show ?thesis
    using fromHexNumber_out_of_range [of hex] by (auto simp add: fromHexNumber_int)
qed

theorem fromHexNumber_dispatch_witness:
  "fromHexNumber (VNum (Fin 0xF00)) = decode_rgb4 0xF00
   \<and> fromHexNumber (VNum (Fin 0xF008)) = decode_rgba4 0xF008
   \<and> fromHexNumber (VNum (Fin 0x123456)) = decode_rgb8 0x123456
   \<and> fromHexNumber (VNum (Fin 0xFF000080)) = decode_rgba8 0xFF000080
   \<and> fromHexNumber (VNum (Fin (- 1))) = Inl (Error ''Invalid hex value'')
   \<and> fromHexNumber (VNum (Fin 0x100000000)) = Inl (Error ''Invalid hex value'')
   \<and> fromHexNumber (VNum (Fin 0.5)) = Inl (Error ''Invalid hex value'')"
  using fromHexNumber_dispatch [of "VNum (Fin 0xF00)" "0xF00"]
    fromHexNumber_dispatch [of "VNum (Fin 0xF008)" "0xF008"]
    fromHexNumber_dispatch [of "VNum (Fin 0x123456)" "0x123456"]
    fromHexNumber_dispatch [of "VNum (Fin 0xFF000080)" "0xFF000080"]
    fromHexNumber_dispatch [of "VNum (Fin (- 1))" 0]
    fromHexNumber_dispatch [of "VNum (Fin 0x100000000)" 0]
    fromHexNumber_dispatch [of "VNum (Fin 0.5)" 0]
  by (simp add: valid_hex_number_def)

section \<open>Hexadecimal strings\<close>

text \<open>
  C2. The string \<open>00ff00\<close> has six digits, so by the claim it is red 0, green 255/255,
  blue 0 with opacity 1. \<open>fromHexString\<close> hands the parsed number 65280 to
  \<open>fromHexNumber\<close>, which reads a number up to \<open>0xFFFF\<close> as four digits of four bits
  each: the colour it returns has red 1, green 1, blue 0 and opacity 0.
\<close>

theorem fromHexString_leading_zero:
  "fromHexString ''00ff00'' =
     Inr \<lparr> name = VUndefined, linearRed = Fin 1, linearGreen = Fin 1, linearBlue = Fin 0,
           opacity = Fin 0 \<rparr>
   \<and> Color_new VUndefined (channel 0x00 255) (channel 0xFF 255) (channel 0x00 255)
         (VNum (Fin 1)) False =
     Inr \<lparr> name = VUndefined, linearRed = Fin 0, linearGreen = Fin 1, linearBlue = Fin 0,
           opacity = Fin 1 \<rparr>"
  by (simp add: fromHexString_def trim_def is_space_def hex_regex_test_def parseInt16_def
      hex_digit_value_def fromHexNumber_def js_band_def js_shr_def channel_def
      Color_new_numbers sRGBToLinear_0_1 round4_Fin clampOpacity_Fin)

end
